theory Spec2Isabelle
  imports Main
begin

text \<open>
  A model of the bridge between a Telegram chat and a Claude Code session that runs in a
  WezTerm pane. It follows three sources: the bridge service with the allow-list, the mute
  flag and the hook endpoint, to which the line numbers below belong; the functions
  \<^verbatim>\<open>handleMessage\<close> and \<^verbatim>\<open>weztermSendText\<close> of the simpler bridge \<^verbatim>\<open>src/bridge.js\<close>, where they
  differ; and the hook script with \<^verbatim>\<open>extractLastAssistantMessage\<close>, together with the converter
  of \<^verbatim>\<open>hooks/send-to-telegram.js\<close>. A handler is a function from the state of the process to its
  result and the new state; what it throws is a value of the result.
\<close>

section \<open>JavaScript strings\<close>

text \<open>
  A JavaScript string is a sequence of UTF-16 code units. The regular expressions and the
  string methods of the bridge (\<^verbatim>\<open>replace\<close>, \<^verbatim>\<open>trim\<close>, \<^verbatim>\<open>split\<close>, \<^verbatim>\<open>slice\<close>, \<^verbatim>\<open>startsWith\<close>)
  all work on code units, so a string is modelled as the list of its code units.
  \<open>js\<close> turns an ASCII literal into that representation.
\<close>

type_synonym jsstring = "nat list"

definition js :: "string \<Rightarrow> jsstring" where
  "js s = map of_char s"

text \<open>\<^verbatim>\<open>String(n)\<close> and template interpolation of a non-negative integer: its decimal digits.\<close>

function String_nat :: "nat \<Rightarrow> jsstring" where
  "String_nat n = (if n < 10 then [48 + n] else String_nat (n div 10) @ [48 + n mod 10])"
  by pat_completeness auto
termination
  by (relation "measure id") auto

declare String_nat.simps [simp del]

text \<open>\<^verbatim>\<open>s.startsWith(p)\<close>.\<close>

definition startsWith :: "jsstring \<Rightarrow> jsstring \<Rightarrow> bool" where
  "startsWith s p = (take (length p) s = p)"

text \<open>
  The first occurrence of \<open>pat\<close> in a string (\<^verbatim>\<open>indexOf\<close>): the text in front of it and the text
  behind it, or \<open>None\<close> when \<open>pat\<close> does not occur.
\<close>

fun find_sub :: "jsstring \<Rightarrow> jsstring \<Rightarrow> (jsstring \<times> jsstring) option" where
  "find_sub pat [] = (if pat = [] then Some ([], []) else None)"
| "find_sub pat (c # cs) =
     (if startsWith (c # cs) pat then Some ([], drop (length pat) (c # cs))
      else map_option (\<lambda>(a, b). (c # a, b)) (find_sub pat cs))"

lemma find_sub_length: "find_sub pat s = Some (a, b) \<Longrightarrow> length b \<le> length s"
proof (induction s arbitrary: a)
  case Nil
  then show ?case by (simp split: if_splits)
next
  case (Cons c cs)
  show ?case
  proof (cases "startsWith (c # cs) pat")
    case True
    with Cons.prems show ?thesis by auto
  next
    case False
    with Cons.prems obtain a' where "find_sub pat cs = Some (a', b)"
      by (auto split: prod.splits)
    from Cons.IH [OF this] show ?thesis by simp
  qed
qed

text \<open>The character classes of ECMAScript regular expressions that the source uses.\<close>

definition isWordChar :: "nat \<Rightarrow> bool" where
  \<comment> \<open>\<^verbatim>\<open>\w\<close>: \<^verbatim>\<open>[A-Za-z0-9_]\<close>\<close>
  "isWordChar c = ((48 \<le> c \<and> c \<le> 57) \<or> (65 \<le> c \<and> c \<le> 90) \<or> c = 95 \<or> (97 \<le> c \<and> c \<le> 122))"

definition isLineTerminator :: "nat \<Rightarrow> bool" where
  \<comment> \<open>the code units that \<^verbatim>\<open>.\<close> does not match: LF, CR, U+2028, U+2029\<close>
  "isLineTerminator c = (c = 10 \<or> c = 13 \<or> c = 8232 \<or> c = 8233)"

definition isWhiteSpace :: "nat \<Rightarrow> bool" where
  \<comment> \<open>what \<^verbatim>\<open>trim\<close> strips: WhiteSpace and LineTerminator of ECMAScript\<close>
  "isWhiteSpace c = ((9 \<le> c \<and> c \<le> 13) \<or> c = 32 \<or> c = 160 \<or> c = 5760 \<or> (8192 \<le> c \<and> c \<le> 8202)
      \<or> c = 8232 \<or> c = 8233 \<or> c = 8239 \<or> c = 8287 \<or> c = 12288 \<or> c = 65279)"

definition trim :: "jsstring \<Rightarrow> jsstring" where
  "trim s = rev (dropWhile isWhiteSpace (rev (dropWhile isWhiteSpace s)))"

text \<open>
  \<^verbatim>\<open>s.replace(/c/g, rep)\<close> for a single code unit \<open>c\<close> and a replacement text without \<^verbatim>\<open>$\<close>.
\<close>

fun replace_char_g :: "nat \<Rightarrow> jsstring \<Rightarrow> jsstring \<Rightarrow> jsstring" where
  "replace_char_g c rep [] = []"
| "replace_char_g c rep (x # xs) =
     (if x = c then rep @ replace_char_g c rep xs else x # replace_char_g c rep xs)"

text \<open>
  The replacement text of \<^verbatim>\<open>String.prototype.replace\<close> when the pattern is a string (no capture
  groups): \<^verbatim>\<open>$$\<close> is a dollar sign, \<^verbatim>\<open>$&\<close> the matched text, \<^verbatim>\<open>$`\<close> the text in front of the match,
  \<^verbatim>\<open>$'\<close> the text behind it; every other code unit, a dollar sign followed by a digit included,
  stands for itself.
\<close>

fun getSubstitution :: "jsstring \<Rightarrow> jsstring \<Rightarrow> jsstring \<Rightarrow> jsstring \<Rightarrow> jsstring" where
  "getSubstitution m pre post [] = []"
| "getSubstitution m pre post [c] = [c]"
| "getSubstitution m pre post (c # d # r) =
     (if c = 36 then
        (if d = 36 then 36 # getSubstitution m pre post r
         else if d = 38 then m @ getSubstitution m pre post r
         else if d = 96 then pre @ getSubstitution m pre post r
         else if d = 39 then post @ getSubstitution m pre post r
         else c # getSubstitution m pre post (d # r))
      else c # getSubstitution m pre post (d # r))"

text \<open>\<^verbatim>\<open>s.replace(pat, rep)\<close> with a string pattern: the first occurrence only.\<close>

definition replace_first :: "jsstring \<Rightarrow> jsstring \<Rightarrow> jsstring \<Rightarrow> jsstring" where
  "replace_first pat rep s =
     (case find_sub pat s of
        None \<Rightarrow> s
      | Some (pre, post) \<Rightarrow> pre @ getSubstitution pat pre post rep @ post)"

section \<open>The Markdown to Telegram HTML converter\<close>

text \<open>
  \<^verbatim>\<open>escapeHtml\<close> of \<^verbatim>\<open>markdownToTelegramHtml\<close>: three global replacements, the ampersand first.
\<close>

definition escapeHtml :: "jsstring \<Rightarrow> jsstring" where
  "escapeHtml str =
     replace_char_g 62 (js ''&gt;'') (replace_char_g 60 (js ''&lt;'') (replace_char_g 38 (js ''&amp;'') str))"

text \<open>
  The fenced code blocks: \<^verbatim>\<open>result.replace(/```(\w*)\n?([\s\S]*?)```/g, ...)\<close>. At each position,
  from the left, a match needs the fence, then takes the longest run of word characters, a
  line feed when there is one, and the shortest text up to the next fence. The run and the
  line feed hold no backquote, so giving them back finds no fence that the first try has
  missed: there is a match exactly when \<open>find_sub\<close> finds a closing fence. The callback pushes
  the protected block and returns the placeholder of its index; the scan goes on behind the
  closing fence.
\<close>

definition fence :: jsstring where
  "fence = js ''```''"

function extractCodeBlocks ::
  "(nat \<Rightarrow> jsstring) \<Rightarrow> jsstring \<Rightarrow> jsstring list \<Rightarrow> jsstring \<times> jsstring list" where
  "extractCodeBlocks ph [] codeBlocks = ([], codeBlocks)"
| "extractCodeBlocks ph (c # cs) codeBlocks =
     (if startsWith (c # cs) fence then
        (let r1 = dropWhile isWordChar (drop 3 (c # cs));
             r2 = (if startsWith r1 [10] then tl r1 else r1)
         in case find_sub fence r2 of
              None \<Rightarrow>
                (let (out, bs) = extractCodeBlocks ph cs codeBlocks in (c # out, bs))
            | Some (code, rest) \<Rightarrow>
                (let (out, bs) =
                   extractCodeBlocks ph rest
                     (codeBlocks @ [js ''<pre><code>'' @ escapeHtml (trim code) @ js ''</code></pre>''])
                 in (ph (length codeBlocks) @ out, bs)))
      else (let (out, bs) = extractCodeBlocks ph cs codeBlocks in (c # out, bs)))"
  by pat_completeness auto
termination
proof (relation "measure (\<lambda>(ph, s, bs). length s)")
  fix ph :: "nat \<Rightarrow> jsstring" and c cs and codeBlocks :: "jsstring list" and r1 r2 x2 code rest
  assume r1: "r1 = dropWhile isWordChar (drop 3 (c # cs))"
    and r2: "r2 = (if startsWith r1 [10] then tl r1 else r1)"
    and f: "find_sub fence r2 = Some x2" "(code, rest) = x2"
  have "length r1 \<le> length cs"
    unfolding r1 by (rule order_trans [OF length_dropWhile_le]) simp
  then have "length r2 \<le> length cs"
    unfolding r2 by (cases r1) auto
  moreover from f have "length rest \<le> length r2"
    by (auto dest: find_sub_length)
  ultimately show "((ph, rest, codeBlocks @ [js ''<pre><code>'' @ escapeHtml (trim code) @ js ''</code></pre>'']),
      (ph, c # cs, codeBlocks)) \<in> measure (\<lambda>(ph, s, bs). length s)"
    by simp
qed auto

text \<open>
  The inline code spans: \<^verbatim>\<open>result.replace(/`([^`]+)`/g, ...)\<close>. A match at a backquote takes the
  longest run of other code units, which must not be empty, and needs a backquote behind it.
\<close>

function extractInlineCodes ::
  "(nat \<Rightarrow> jsstring) \<Rightarrow> jsstring \<Rightarrow> jsstring list \<Rightarrow> jsstring \<times> jsstring list" where
  "extractInlineCodes ph [] inlineCodes = ([], inlineCodes)"
| "extractInlineCodes ph (c # cs) inlineCodes =
     (if c = 96 \<and> takeWhile (\<lambda>x. x \<noteq> 96) cs \<noteq> [] \<and> dropWhile (\<lambda>x. x \<noteq> 96) cs \<noteq> [] then
        (let code = takeWhile (\<lambda>x. x \<noteq> 96) cs;
             rest = tl (dropWhile (\<lambda>x. x \<noteq> 96) cs);
             (out, cs') =
               extractInlineCodes ph rest
                 (inlineCodes @ [js ''<code>'' @ escapeHtml code @ js ''</code>''])
         in (ph (length inlineCodes) @ out, cs'))
      else (let (out, cs') = extractInlineCodes ph cs inlineCodes in (c # out, cs')))"
  by pat_completeness auto
termination
proof (relation "measure (\<lambda>(ph, s, bs). length s)")
  fix ph :: "nat \<Rightarrow> jsstring" and c :: nat and cs code rest :: jsstring
    and inlineCodes :: "jsstring list"
  assume "rest = tl (dropWhile (\<lambda>x. x \<noteq> 96) cs)"
  moreover have "length (dropWhile (\<lambda>x. x \<noteq> 96) cs) \<le> length cs"
    by (rule length_dropWhile_le)
  ultimately show "((ph, rest, inlineCodes @ [js ''<code>'' @ escapeHtml code @ js ''</code>'']),
      (ph, c # cs, inlineCodes)) \<in> measure (\<lambda>(ph, s, bs). length s)"
    by simp
qed auto

text \<open>
  The emphasis conversions, for instance \<^verbatim>\<open>result.replace(/\*\*(.+?)\*\*/g, '<b>$1</b>')\<close>.
  \<open>lazyBody d s\<close> is the group \<^verbatim>\<open>(.+?)\<close> followed by the closing delimiter \<open>d\<close>: the shortest
  text of at least one code unit, none of them a line terminator, that has \<open>d\<close> behind it; it
  gives the text and what follows the delimiter.
\<close>

fun lazyBody :: "jsstring \<Rightarrow> jsstring \<Rightarrow> (jsstring \<times> jsstring) option" where
  "lazyBody d [] = None"
| "lazyBody d (c # cs) =
     (if isLineTerminator c then None
      else if startsWith cs d then Some ([c], drop (length d) cs)
      else map_option (\<lambda>(b, r). (c # b, r)) (lazyBody d cs))"

lemma lazyBody_length: "lazyBody d s = Some (b, r) \<Longrightarrow> length r < length s"
proof (induction s arbitrary: b)
  case Nil
  then show ?case by simp
next
  case (Cons c cs)
  show ?case
  proof (cases "startsWith cs d")
    case True
    with Cons.prems show ?thesis by (auto split: if_splits)
  next
    case False
    with Cons.prems obtain b' where "lazyBody d cs = Some (b', r)"
      by (auto split: if_splits prod.splits)
    from Cons.IH [OF this] show ?thesis by simp
  qed
qed

function replaceEmphasis :: "jsstring \<Rightarrow> jsstring \<Rightarrow> jsstring \<Rightarrow> jsstring \<Rightarrow> jsstring" where
  "replaceEmphasis d opn cls [] = []"
| "replaceEmphasis d opn cls (c # cs) =
     (if startsWith (c # cs) d then
        (case lazyBody d (drop (length d) (c # cs)) of
           None \<Rightarrow> c # replaceEmphasis d opn cls cs
         | Some (body, rest) \<Rightarrow> opn @ body @ cls @ replaceEmphasis d opn cls rest)
      else c # replaceEmphasis d opn cls cs)"
  by pat_completeness auto
termination
proof (relation "measure (\<lambda>(d, opn, cls, s). length s)")
  fix d opn cls :: jsstring and c cs x2 body rest
  assume "lazyBody d (drop (length d) (c # cs)) = Some x2" "(body, rest) = x2"
  then have "length rest < length (drop (length d) (c # cs))"
    by (auto dest: lazyBody_length)
  then show "((d, opn, cls, rest), (d, opn, cls, c # cs)) \<in> measure (\<lambda>(d, opn, cls, s). length s)"
    by simp
qed auto

text \<open>
  The two \<^verbatim>\<open>forEach\<close> loops that put the protected fragments back: the fragment of index \<open>i\<close>
  replaces the first occurrence of the escaped placeholder \<open>pat i\<close>, as a replacement text.
\<close>

fun restore :: "(nat \<Rightarrow> jsstring) \<Rightarrow> nat \<Rightarrow> jsstring list \<Rightarrow> jsstring \<Rightarrow> jsstring" where
  "restore pat i [] result = result"
| "restore pat i (block # blocks) result = restore pat (Suc i) blocks (replace_first (pat i) block result)"

text \<open>
  The body of \<^verbatim>\<open>markdownToTelegramHtml\<close>, which the bridge and the stand-alone hook script share
  up to the text of their placeholders.
\<close>

definition convertWith ::
  "(nat \<Rightarrow> jsstring) \<Rightarrow> (nat \<Rightarrow> jsstring) \<Rightarrow> (nat \<Rightarrow> jsstring) \<Rightarrow> (nat \<Rightarrow> jsstring) \<Rightarrow> jsstring \<Rightarrow> jsstring" where
  "convertWith blockPh inlinePh blockPat inlinePat text =
     (let (r1, codeBlocks) = extractCodeBlocks blockPh text [];
          (r2, inlineCodes) = extractInlineCodes inlinePh r1 [];
          r3 = escapeHtml r2;
          r4 = replaceEmphasis (js ''**'') (js ''<b>'') (js ''</b>'') r3;
          r5 = replaceEmphasis (js ''*'') (js ''<i>'') (js ''</i>'') r4;
          r6 = replaceEmphasis (js ''__'') (js ''<u>'') (js ''</u>'') r5;
          r7 = replaceEmphasis (js ''~~'') (js ''<s>'') (js ''</s>'') r6;
          r8 = restore blockPat 0 codeBlocks r7
      in restore inlinePat 0 inlineCodes r8)"

text \<open>The converter of the bridge, with the placeholders \<^verbatim>\<open><<<CODEBLOCK0>>>\<close>.\<close>

definition markdownToTelegramHtml :: "jsstring \<Rightarrow> jsstring" where
  "markdownToTelegramHtml text =
     convertWith
       (\<lambda>index. js ''<<<CODEBLOCK'' @ String_nat index @ js ''>>>'')
       (\<lambda>index. js ''<<<INLINECODE'' @ String_nat index @ js ''>>>'')
       (\<lambda>index. js ''&lt;&lt;&lt;CODEBLOCK'' @ String_nat index @ js ''&gt;&gt;&gt;'')
       (\<lambda>index. js ''&lt;&lt;&lt;INLINECODE'' @ String_nat index @ js ''&gt;&gt;&gt;'')
       text"

text \<open>
  The converter of \<^verbatim>\<open>hooks/send-to-telegram.js\<close>, with the placeholders \<^verbatim>\<open>__CODE_BLOCK_0__\<close>.
\<close>

definition hook_markdownToTelegramHtml :: "jsstring \<Rightarrow> jsstring" where
  "hook_markdownToTelegramHtml text =
     convertWith
       (\<lambda>index. js ''__CODE_BLOCK_'' @ String_nat index @ js ''__'')
       (\<lambda>index. js ''__INLINE_CODE_'' @ String_nat index @ js ''__'')
       (\<lambda>index. js ''__CODE_BLOCK_'' @ String_nat index @ js ''__'')
       (\<lambda>index. js ''__INLINE_CODE_'' @ String_nat index @ js ''__'')
       text"

section \<open>Values read from JSON\<close>

text \<open>
  What \<^verbatim>\<open>JSON.parse\<close> returns. The type \<open>'n\<close> stands for JavaScript's numbers, of which the
  code only asks whether they are truthy and how they print. An object is the list of its
  own properties. A value that may be \<^verbatim>\<open>undefined\<close> is an option, \<open>None\<close> for \<^verbatim>\<open>undefined\<close>.
\<close>

datatype 'n json =
    JNull
  | JBool bool
  | JNum 'n
  | JStr jsstring
  | JArr "'n json list"
  | JObj "(jsstring \<times> 'n json) list"

type_synonym 'n jsval = "'n json option"

text \<open>An exception, with its \<^verbatim>\<open>message\<close>.\<close>

datatype exn = Error jsstring

text \<open>
  Reading a property \<^verbatim>\<open>v.k\<close>, for the property names the source reads (none of them a
  property of strings, arrays or \<^verbatim>\<open>Object.prototype\<close>): a \<^verbatim>\<open>TypeError\<close> on \<^verbatim>\<open>null\<close> and
  \<^verbatim>\<open>undefined\<close>, whose message is \<open>te\<close>; the own property of an object; \<^verbatim>\<open>undefined\<close> otherwise.
\<close>

fun getProp :: "jsstring \<Rightarrow> 'n jsval \<Rightarrow> jsstring \<Rightarrow> exn + 'n jsval" where
  "getProp te None k = Inl (Error te)"
| "getProp te (Some JNull) k = Inl (Error te)"
| "getProp te (Some (JObj kvs)) k = Inr (map_of kvs k)"
| "getProp te (Some v) k = Inr None"

text \<open>Truthiness, as \<^verbatim>\<open>if (v)\<close>, \<^verbatim>\<open>!v\<close>, \<^verbatim>\<open>v || d\<close> and \<^verbatim>\<open>a && b\<close> test it.\<close>

fun truthy :: "('n \<Rightarrow> bool) \<Rightarrow> 'n jsval \<Rightarrow> bool" where
  "truthy nt None = False"
| "truthy nt (Some JNull) = False"
| "truthy nt (Some (JBool b)) = b"
| "truthy nt (Some (JNum n)) = nt n"
| "truthy nt (Some (JStr s)) = (s \<noteq> [])"
| "truthy nt (Some (JArr xs)) = True"
| "truthy nt (Some (JObj kvs)) = True"

text \<open>
  \<^verbatim>\<open>String(v)\<close> and the interpolation of \<^verbatim>\<open>v\<close> in a template. Numbers, arrays and objects
  print as the parameter \<open>ts\<close> says, which is \<open>None\<close> where the conversion throws (an
  object with a property \<^verbatim>\<open>toString\<close> of its own).
\<close>

fun String_val :: "jsstring \<Rightarrow> ('n json \<Rightarrow> jsstring option) \<Rightarrow> 'n jsval \<Rightarrow> exn + jsstring" where
  "String_val te ts None = Inr (js ''undefined'')"
| "String_val te ts (Some JNull) = Inr (js ''null'')"
| "String_val te ts (Some (JBool b)) = Inr (if b then js ''true'' else js ''false'')"
| "String_val te ts (Some (JStr s)) = Inr s"
| "String_val te ts (Some v) = (case ts v of None \<Rightarrow> Inl (Error te) | Some s \<Rightarrow> Inr s)"

text \<open>The method call \<^verbatim>\<open>v.toString()\<close>, which throws on \<^verbatim>\<open>null\<close> and \<^verbatim>\<open>undefined\<close>.\<close>

fun toString_val :: "jsstring \<Rightarrow> ('n json \<Rightarrow> jsstring option) \<Rightarrow> 'n jsval \<Rightarrow> exn + jsstring" where
  "toString_val te ts None = Inl (Error te)"
| "toString_val te ts (Some JNull) = Inl (Error te)"
| "toString_val te ts v = String_val te ts v"

text \<open>\<^verbatim>\<open>s.split(c)\<close> for a separator of one code unit, and \<^verbatim>\<open>parts.join(sep)\<close>.\<close>

fun split_char :: "nat \<Rightarrow> jsstring \<Rightarrow> jsstring list" where
  "split_char c [] = [[]]"
| "split_char c (x # xs) =
     (if x = c then [] # split_char c xs
      else (case split_char c xs of [] \<Rightarrow> [[x]] | p # ps \<Rightarrow> (x # p) # ps))"

fun join :: "jsstring \<Rightarrow> jsstring list \<Rightarrow> jsstring" where
  "join sep [] = []"
| "join sep [p] = p"
| "join sep (p # q # ps) = p @ sep @ join sep (q # ps)"

section \<open>The bridge: its state and its surroundings\<close>

text \<open>
  A pane of the listing \<^verbatim>\<open>wezterm cli list --format json\<close>. The code reads a pane's id only
  as \<^verbatim>\<open>String(p.pane_id)\<close> and its title only as \<^verbatim>\<open>p.title || ...\<close> in a template, so a pane is
  modelled by these two texts (an empty title for a falsy one).
\<close>

record pane =
  pane_id :: jsstring
  title :: jsstring

text \<open>The calls of the chat platform's API (\<^verbatim>\<open>telegramApi(method, body)\<close>) and their answers.\<close>

datatype 'n api_call =
    SendMessage "'n jsval" jsstring "jsstring option"
  | SendChatAction "'n jsval"
  | SetMyCommands
  | AnswerCallbackQuery "'n jsval" "jsstring option" bool

record api_result =
  ok :: bool
  description :: "jsstring option"

text \<open>
  What the process does to the outside, in order: the shell commands it runs with
  \<^verbatim>\<open>execSync\<close> and the API calls it makes.
\<close>

datatype 'n event = Exec jsstring | Api "'n api_call"

text \<open>
  The surroundings of the process. The configuration: the allow-list and the pane id of the
  environment. The parts of JavaScript that are not modelled here: \<^verbatim>\<open>JSON.parse\<close> (the message
  of its \<^verbatim>\<open>SyntaxError\<close> on the left), \<^verbatim>\<open>toLowerCase\<close>, the truthiness and the printing of
  numbers and objects. The outside world, which answers according to what has happened so
  far: the pane listing as \<^verbatim>\<open>getWeztermPanes\<close> returns it (empty when the command fails), the
  message of the error of a shell command that fails, the answer of the chat platform, the
  clock. And \<open>fixed l k\<close>, the fixed text number \<open>k\<close> (between the interpolations, from 0) of
  the string literal or template on line \<open>l\<close> of the bridge's source, for the literals that are
  not plain ASCII. \<open>engine_message l\<close> is the message of the \<^verbatim>\<open>TypeError\<close> that the JavaScript
  engine throws on line \<open>l\<close>.
\<close>

record 'n env =
  ALLOWED_CHAT_IDS :: "jsstring list"
  WEZTERM_PANE_ID :: "jsstring option"
  fixed :: "nat \<Rightarrow> nat \<Rightarrow> jsstring"
  engine_message :: "nat \<Rightarrow> jsstring"
  JSON_parse :: "jsstring \<Rightarrow> jsstring + 'n json"
  toLowerCase :: "jsstring \<Rightarrow> jsstring"
  numTruthy :: "'n \<Rightarrow> bool"
  ToString :: "'n json \<Rightarrow> jsstring option"
  wezterm_list :: "'n event list \<Rightarrow> pane list"
  exec_error :: "'n event list \<Rightarrow> jsstring \<Rightarrow> jsstring option"
  telegram :: "'n event list \<Rightarrow> 'n api_call \<Rightarrow> api_result"
  Date_now :: "'n event list \<Rightarrow> nat"

text \<open>
  The state of the process: the module's variables \<^verbatim>\<open>isMuted\<close>, \<^verbatim>\<open>selectedPaneId\<close> and
  \<^verbatim>\<open>typingInterval\<close> (the chat of the running timer), the three state files under
  \<^verbatim>\<open>~/.claude\<close> (\<open>None\<close> for a file that does not exist), and the trace of what the process has
  done to the outside. A handler runs to its end before the next one starts; the later
  signals of the typing timer, the console output and failures of the file operations are
  not modelled.
\<close>

record 'n state =
  isMuted :: bool
  selectedPaneId :: "jsstring option"
  typingInterval :: "'n jsval option"
  chat_id_file :: "jsstring option"
  pane_id_file :: "jsstring option"
  pending_file :: "jsstring option"
  trace :: "'n event list"

definition typeError :: "'n env \<Rightarrow> nat \<Rightarrow> jsstring" where
  "typeError env l = engine_message env l"

definition BLOCKED_COMMANDS :: "jsstring list" where
  "BLOCKED_COMMANDS =
     [js ''/mcp'', js ''/help'', js ''/config'', js ''/settings'', js ''/model'', js ''/vim'',
      js ''/terminal-setup'']"

definition MAX_MESSAGE_LENGTH :: nat where
  "MAX_MESSAGE_LENGTH = 4000"

subsection \<open>The chat platform\<close>

definition telegramApi :: "'n env \<Rightarrow> 'n api_call \<Rightarrow> 'n state \<Rightarrow> api_result \<times> 'n state" where
  "telegramApi env call st = (telegram env (trace st) call, st\<lparr>trace := trace st @ [Api call]\<rparr>)"

definition sendMessage :: "'n env \<Rightarrow> 'n jsval \<Rightarrow> jsstring \<Rightarrow> 'n state \<Rightarrow> api_result \<times> 'n state" where
  "sendMessage env chatId txt st =
     telegramApi env (SendMessage chatId (take MAX_MESSAGE_LENGTH txt) (Some (js ''HTML''))) st"

definition sendMessageWithFallback ::
  "'n env \<Rightarrow> 'n jsval \<Rightarrow> jsstring \<Rightarrow> 'n state \<Rightarrow> api_result \<times> 'n state" where
  "sendMessageWithFallback env chatId txt st =
     (let (result, st1) =
            telegramApi env (SendMessage chatId (take MAX_MESSAGE_LENGTH txt) (Some (js ''HTML''))) st
      in if \<not> ok result
         then telegramApi env (SendMessage chatId (take MAX_MESSAGE_LENGTH txt) None) st1
         else (result, st1))"

definition stopTypingLoop :: "'n state \<Rightarrow> 'n state" where
  "stopTypingLoop st = st\<lparr>typingInterval := None\<rparr>"

definition startTypingLoop :: "'n env \<Rightarrow> 'n jsval \<Rightarrow> 'n state \<Rightarrow> 'n state" where
  "startTypingLoop env chatId st =
     (let (r, st1) = telegramApi env (SendChatAction chatId) (stopTypingLoop st)
      in st1\<lparr>typingInterval := Some chatId\<rparr>)"

definition setupBotCommands :: "'n env \<Rightarrow> 'n state \<Rightarrow> 'n state" where
  "setupBotCommands env st = snd (telegramApi env SetMyCommands st)"

subsection \<open>The pane registry\<close>

definition getWeztermPanes :: "'n env \<Rightarrow> 'n state \<Rightarrow> pane list \<times> 'n state" where
  "getWeztermPanes env st =
     (wezterm_list env (trace st), st\<lparr>trace := trace st @ [Exec (js ''wezterm cli list --format json'')]\<rparr>)"

definition saveSelectedPaneId :: "jsstring \<Rightarrow> 'n state \<Rightarrow> 'n state" where
  "saveSelectedPaneId paneId st = st\<lparr>selectedPaneId := Some paneId, pane_id_file := Some paneId\<rparr>"

definition clearSelectedPaneId :: "'n state \<Rightarrow> 'n state" where
  "clearSelectedPaneId st = st\<lparr>selectedPaneId := None, pane_id_file := None\<rparr>"

definition hasPane :: "pane list \<Rightarrow> jsstring \<Rightarrow> bool" where
  \<comment> \<open>\<^verbatim>\<open>panes.some(p => String(p.pane_id) === String(paneId))\<close>\<close>
  "hasPane panes paneId = list_ex (\<lambda>p. pane_id p = paneId) panes"

definition paneExists :: "'n env \<Rightarrow> jsstring \<Rightarrow> 'n state \<Rightarrow> bool \<times> 'n state" where
  "paneExists env paneId st = (let (panes, st1) = getWeztermPanes env st in (hasPane panes paneId, st1))"

definition envPaneId :: "'n env \<Rightarrow> jsstring option" where
  \<comment> \<open>\<^verbatim>\<open>if (process.env.WEZTERM_PANE_ID) return process.env.WEZTERM_PANE_ID; return null\<close>\<close>
  "envPaneId env =
     (case WEZTERM_PANE_ID env of None \<Rightarrow> None | Some p \<Rightarrow> if p = [] then None else Some p)"

definition findClaudePaneId :: "'n env \<Rightarrow> 'n state \<Rightarrow> jsstring option \<times> 'n state" where
  "findClaudePaneId env st =
     (case selectedPaneId st of
        None \<Rightarrow> (envPaneId env, st)
      | Some sel \<Rightarrow>
          (let (found, st1) = paneExists env sel st
           in if found then (Some sel, st1) else (envPaneId env, clearSelectedPaneId st1)))"

subsection \<open>The terminal dispatcher\<close>

text \<open>
  \<^verbatim>\<open>execSync(cmd)\<close>: the command is run, and the call throws the error of a command that
  fails.
\<close>

definition execSync :: "'n env \<Rightarrow> jsstring \<Rightarrow> 'n state \<Rightarrow> exn option \<times> 'n state" where
  "execSync env cmd st =
     (map_option Error (exec_error env (trace st) cmd), st\<lparr>trace := trace st @ [Exec cmd]\<rparr>)"

text \<open>
  The two command lines of \<^verbatim>\<open>weztermSendText\<close> and \<^verbatim>\<open>weztermSendEscape\<close>; code unit 34 is the
  double quote and 96 the backquote.
\<close>

definition sendTextCommand :: "jsstring \<Rightarrow> jsstring \<Rightarrow> jsstring" where
  "sendTextCommand paneId escapedText =
     js ''wezterm cli send-text --pane-id '' @ paneId @ js '' --no-paste '' @ [34] @ escapedText @ [34]"

definition sendKeyCommand :: "jsstring \<Rightarrow> jsstring \<Rightarrow> jsstring" where
  "sendKeyCommand paneId key =
     js ''powershell -NoProfile -Command '' @ [34] @ js ''wezterm cli send-text --pane-id '' @ paneId
       @ js '' --no-paste '' @ [34, 96] @ key @ [34, 34]"

text \<open>The \<^verbatim>\<open>try\<close> block that \<^verbatim>\<open>weztermSendText\<close> has in both variants of the bridge.\<close>

definition sendTextAndEnter :: "'n env \<Rightarrow> jsstring \<Rightarrow> jsstring \<Rightarrow> 'n state \<Rightarrow> (exn + bool) \<times> 'n state" where
  "sendTextAndEnter env paneId txt st =
     (let escapedText = replace_char_g 34 [34, 34] txt;
          (e1, st1) = execSync env (sendTextCommand paneId escapedText) st
      in case e1 of
           Some e \<Rightarrow> (Inl e, st1)
         | None \<Rightarrow>
             (let (e2, st2) = execSync env (sendKeyCommand paneId (js ''r'')) st1
              in case e2 of Some e \<Rightarrow> (Inl e, st2) | None \<Rightarrow> (Inr True, st2)))"

definition weztermSendText :: "'n env \<Rightarrow> jsstring \<Rightarrow> 'n state \<Rightarrow> (exn + bool) \<times> 'n state" where
  "weztermSendText env txt st =
     (let (panes, st1) = getWeztermPanes env st
      in if panes = [] then (Inl (Error (fixed env 279 0)), clearSelectedPaneId st1)
         else
           (let (paneId, st2) = findClaudePaneId env st1
            in case paneId of
                 None \<Rightarrow> (Inl (Error (fixed env 285 0)), st2)
               | Some p \<Rightarrow>
                   if p = [] then (Inl (Error (fixed env 285 0)), st2)
                   else if \<not> hasPane panes p
                   then (Inl (Error (fixed env 292 0 @ p @ fixed env 292 1)), clearSelectedPaneId st2)
                   else sendTextAndEnter env p txt st2))"

text \<open>\<^verbatim>\<open>weztermSendText\<close> of \<^verbatim>\<open>src/bridge.js\<close>, which does not look at the listing itself.\<close>

definition weztermSendText_bridge_js ::
  "'n env \<Rightarrow> jsstring \<Rightarrow> 'n state \<Rightarrow> (exn + bool) \<times> 'n state" where
  "weztermSendText_bridge_js env txt st =
     (let (paneId, st1) = findClaudePaneId env st
      in case paneId of
           None \<Rightarrow> (Inl (Error (fixed env 285 0)), st1)
         | Some p \<Rightarrow>
             if p = [] then (Inl (Error (fixed env 285 0)), st1)
             else sendTextAndEnter env p txt st1)"

definition weztermSendEscape :: "'n env \<Rightarrow> 'n state \<Rightarrow> bool \<times> 'n state" where
  "weztermSendEscape env st =
     (let (paneId, st1) = findClaudePaneId env st
      in case paneId of
           None \<Rightarrow> (False, st1)
         | Some p \<Rightarrow>
             if p = [] then (False, st1)
             else (let (e, st2) = execSync env (sendKeyCommand p (js ''e'')) st1 in (e = None, st2)))"

subsection \<open>The session state store\<close>

definition bindE :: "exn + 'a \<Rightarrow> ('a \<Rightarrow> exn + 'b) \<Rightarrow> exn + 'b" where
  "bindE x f = (case x of Inl e \<Rightarrow> Inl e | Inr v \<Rightarrow> f v)"

definition saveChatId :: "'n env \<Rightarrow> 'n jsval \<Rightarrow> 'n state \<Rightarrow> exn + 'n state" where
  "saveChatId env chatId st =
     bindE (toString_val (typeError env 342) (ToString env) chatId) (\<lambda>s. Inr (st\<lparr>chat_id_file := Some s\<rparr>))"

definition getChatId :: "'n state \<Rightarrow> jsstring option" where
  "getChatId st = map_option trim (chat_id_file st)"

text \<open>\<^verbatim>\<open>setPending\<close> and \<^verbatim>\<open>clearPending\<close>, which only \<^verbatim>\<open>src/bridge.js\<close> has.\<close>

definition setPending :: "'n env \<Rightarrow> 'n state \<Rightarrow> 'n state" where
  "setPending env st = st\<lparr>pending_file := Some (String_nat (Date_now env (trace st)))\<rparr>"

definition clearPending :: "'n state \<Rightarrow> 'n state" where
  "clearPending st = st\<lparr>pending_file := None\<rparr>"

definition isAuthorized :: "'n env \<Rightarrow> 'n jsval \<Rightarrow> exn + bool" where
  "isAuthorized env chatId =
     (if ALLOWED_CHAT_IDS env = [] then Inr False
      else bindE (String_val (typeError env 367) (ToString env) chatId)
             (\<lambda>s. Inr (s \<in> set (ALLOWED_CHAT_IDS env))))"

subsection \<open>The command router\<close>

text \<open>A handler's result: the exception it throws, if any, and the state it leaves.\<close>

definition say :: "'n env \<Rightarrow> 'n jsval \<Rightarrow> jsstring \<Rightarrow> 'n state \<Rightarrow> exn option \<times> 'n state" where
  \<comment> \<open>\<^verbatim>\<open>await sendMessage(chatId, txt)\<close> as the last statement of a branch\<close>
  "say env chatId txt st = (None, snd (sendMessage env chatId txt st))"

definition titleOf :: "'n env \<Rightarrow> nat \<Rightarrow> pane option \<Rightarrow> jsstring" where
  \<comment> \<open>\<^verbatim>\<open>pane?.title || '...'\<close>, the default being the literal of line \<open>l\<close>\<close>
  "titleOf env l p = (case p of None \<Rightarrow> fixed env l 0 | Some q \<Rightarrow> if title q = [] then fixed env l 0 else title q)"

definition String_paneId :: "jsstring option \<Rightarrow> jsstring" where
  \<comment> \<open>\<^verbatim>\<open>String(currentPaneId)\<close> of a pane id that may be \<^verbatim>\<open>null\<close>\<close>
  "String_paneId p = (case p of None \<Rightarrow> js ''null'' | Some c \<Rightarrow> c)"

definition paneLine :: "'n env \<Rightarrow> jsstring option \<Rightarrow> pane \<Rightarrow> jsstring" where
  "paneLine env currentPaneId p =
     js ''<b>'' @ pane_id p @ js ''</b>''
       @ (if pane_id p = String_paneId currentPaneId then fixed env 440 0 else [])
       @ js '' - '' @ titleOf env 441 (Some p) @ [10]"

definition handleCommand ::
  "'n env \<Rightarrow> 'n jsval \<Rightarrow> jsstring \<Rightarrow> jsstring \<Rightarrow> 'n state \<Rightarrow> exn option \<times> 'n state" where
  "handleCommand env chatId command args st0 =
     (case saveChatId env chatId st0 of
        Inl e \<Rightarrow> (Some e, st0)
      | Inr st \<Rightarrow>
          if command = js ''/start'' \<or> command = js ''/help'' then say env chatId (fixed env 404 0) st
          else if command = js ''/panes'' then
            (let (panes, st1) = getWeztermPanes env st
             in if panes = [] then say env chatId (fixed env 431 0) st1
                else
                  (let (currentPaneId, st2) = findClaudePaneId env st1
                   in say env chatId
                        (fixed env 436 0 @ concat (map (paneLine env currentPaneId) panes) @ fixed env 445 0
                           @ (case currentPaneId of
                                None \<Rightarrow> []
                              | Some c \<Rightarrow> fixed env 447 0 @ c @ fixed env 447 1))
                        st2))
          else if command = js ''/setpane'' then
            (if trim args = [] then say env chatId (fixed env 456 0) st
             else
               (let paneId = trim args;
                    (panes, st1) = getWeztermPanes env st
                in if \<not> hasPane panes paneId
                   then say env chatId (fixed env 465 0 @ paneId @ fixed env 465 1) st1
                   else say env chatId
                          (fixed env 472 0 @ paneId @ fixed env 472 1
                             @ titleOf env 471 (find (\<lambda>p. pane_id p = paneId) panes) @ fixed env 472 2)
                          (saveSelectedPaneId paneId st1)))
          else if command = js ''/status'' then
            (let (panes, st1) = getWeztermPanes env st;
                 (currentPaneId, st2) = findClaudePaneId env st1;
                 muteStatus = (if isMuted st2 then fixed env 479 0 else fixed env 479 1);
                 weztermStatus =
                   (if panes \<noteq> [] then fixed env 480 0 @ String_nat (length panes) @ fixed env 480 1
                    else fixed env 480 2)
             in case currentPaneId of
                  Some c \<Rightarrow>
                    say env chatId
                      (fixed env 485 0 @ weztermStatus @ fixed env 485 1 @ c @ fixed env 485 2
                         @ titleOf env 484 (find (\<lambda>p. pane_id p = c) panes) @ fixed env 485 3 @ muteStatus)
                      st2
                | None \<Rightarrow>
                    say env chatId
                      (fixed env 487 0 @ weztermStatus @ fixed env 487 1 @ muteStatus @ fixed env 487 2) st2)
          else if command = js ''/mute'' then say env chatId (fixed env 494 0) (st\<lparr>isMuted := True\<rparr>)
          else if command = js ''/unmute'' then say env chatId (fixed env 499 0) (st\<lparr>isMuted := False\<rparr>)
          else if command = js ''/refresh'' then say env chatId (fixed env 504 0) (setupBotCommands env st)
          else if command = js ''/stop'' then
            (let (sent, st1) = weztermSendEscape env st;
                 (e, st2) = say env chatId (if sent then fixed env 509 0 else fixed env 511 0) st1
             in (e, stopTypingLoop st2))
          else if command = js ''/clear'' then
            (let (paneId, st1) = findClaudePaneId env st
             in if paneId \<noteq> None then
                  (case weztermSendText env (js ''/clear'') st1 of
                     (Inl e, st2) \<Rightarrow> (Some e, st2)
                   | (Inr b, st2) \<Rightarrow> say env chatId (fixed env 519 0) st2)
                else say env chatId (fixed env 521 0) st1)
          else if command = js ''/resume'' then
            (let (paneId, st1) = findClaudePaneId env st
             in if paneId \<noteq> None then
                  (case weztermSendText env (js ''/resume'') st1 of
                     (Inl e, st2) \<Rightarrow> (Some e, st2)
                   | (Inr b, st2) \<Rightarrow> say env chatId (fixed env 528 0) st2)
                else say env chatId (fixed env 530 0) st1)
          else if list_ex (\<lambda>cmd. startsWith command cmd) BLOCKED_COMMANDS
          then say env chatId (fixed env 537 0 @ command @ fixed env 537 1) st
          else say env chatId (fixed env 539 0 @ command) st)"

definition handleMessage :: "'n env \<Rightarrow> 'n jsval \<Rightarrow> jsstring \<Rightarrow> 'n state \<Rightarrow> exn option \<times> 'n state" where
  "handleMessage env chatId txt st0 =
     (case saveChatId env chatId st0 of
        Inl e \<Rightarrow> (Some e, st0)
      | Inr st \<Rightarrow>
          (let (paneId, st1) = findClaudePaneId env st
           in if paneId = None then say env chatId (fixed env 553 0) st1
              else if list_ex (\<lambda>cmd. startsWith (toLowerCase env txt) cmd) BLOCKED_COMMANDS
              then say env chatId (fixed env 559 0) st1
              else
                (case weztermSendText env txt (startTypingLoop env chatId st1) of
                   (Inr b, st2) \<Rightarrow> (None, st2)
                 | (Inl (Error m), st2) \<Rightarrow> say env chatId (fixed env 573 0 @ m) (stopTypingLoop st2))))"

text \<open>
  \<^verbatim>\<open>handleMessage\<close> of \<^verbatim>\<open>src/bridge.js\<close>, with the pending marker; its fixed texts are those of
  the lines 553, 559 and 573 above.
\<close>

definition handleMessage_bridge_js ::
  "'n env \<Rightarrow> 'n jsval \<Rightarrow> jsstring \<Rightarrow> 'n state \<Rightarrow> exn option \<times> 'n state" where
  "handleMessage_bridge_js env chatId txt st0 =
     (case saveChatId env chatId st0 of
        Inl e \<Rightarrow> (Some e, st0)
      | Inr st \<Rightarrow>
          (let (paneId, st1) = findClaudePaneId env st
           in if paneId = None then say env chatId (fixed env 553 0) st1
              else if list_ex (\<lambda>cmd. startsWith (toLowerCase env txt) cmd) BLOCKED_COMMANDS
              then say env chatId (fixed env 559 0) st1
              else
                (case weztermSendText_bridge_js env txt (startTypingLoop env chatId (setPending env st1)) of
                   (Inr b, st2) \<Rightarrow> (None, st2)
                 | (Inl (Error m), st2) \<Rightarrow>
                     say env chatId (fixed env 573 0 @ m) (clearPending (stopTypingLoop st2)))))"

subsection \<open>The inbound HTTP server\<close>

text \<open>A response: the status and the body, a text or the object given to \<^verbatim>\<open>JSON.stringify\<close>.\<close>

datatype 'n body = Text jsstring | Json "(jsstring \<times> 'n json) list"

type_synonym 'n response = "nat \<times> 'n body"

definition asString :: "'n env \<Rightarrow> nat \<Rightarrow> 'n jsval \<Rightarrow> exn + jsstring" where
  \<comment> \<open>the receiver of a string method: a \<^verbatim>\<open>TypeError\<close> when the value is not a string\<close>
  "asString env l v = (case v of Some (JStr s) \<Rightarrow> Inr s | _ \<Rightarrow> Inl (Error (typeError env l)))"

definition orElse :: "'n env \<Rightarrow> 'n jsval \<Rightarrow> jsstring \<Rightarrow> 'n jsval" where
  \<comment> \<open>\<^verbatim>\<open>v || 'd'\<close>\<close>
  "orElse env v d = (if truthy (numTruthy env) v then v else Some (JStr d))"

text \<open>
  The part of \<^verbatim>\<open>handleTelegramWebhook\<close> for \<^verbatim>\<open>update.message\<close>. The result says whether the
  handler has answered and returned (\<open>True\<close>, the unauthorized chat) or goes on.
\<close>

definition webhookMessage :: "'n env \<Rightarrow> 'n json \<Rightarrow> 'n state \<Rightarrow> (exn + bool) \<times> 'n state" where
  "webhookMessage env update st =
     (case getProp (typeError env 660) (Some update) (js ''message'') of
        Inl e \<Rightarrow> (Inl e, st)
      | Inr msg \<Rightarrow>
          if \<not> truthy (numTruthy env) msg then (Inr False, st)
          else
            (case bindE (getProp (typeError env 661) msg (js ''chat''))
                    (\<lambda>chat. bindE (getProp (typeError env 661) chat (js ''id''))
                    (\<lambda>chatId. bindE (getProp (typeError env 662) msg (js ''text''))
                    (\<lambda>t. bindE (isAuthorized env chatId)
                    (\<lambda>authorized. Inr (chatId, orElse env t [], authorized))))) of
               Inl e \<Rightarrow> (Inl e, st)
             | Inr (chatId, txt, authorized) \<Rightarrow>
                 if \<not> authorized then
                   (case String_val (typeError env 666) (ToString env) chatId of
                      Inl e \<Rightarrow> (Inl e, st)
                    | Inr c \<Rightarrow>
                        (Inr True, snd (sendMessage env chatId (fixed env 667 0 @ c @ fixed env 667 1) st)))
                 else
                   (case asString env 673 txt of
                      Inl e \<Rightarrow> (Inl e, st)
                    | Inr t \<Rightarrow>
                        if startsWith t (js ''/'') then
                          (case split_char 32 t of
                             [] \<Rightarrow> (Inl (Error (typeError env 675)), st)
                           | command # args \<Rightarrow>
                               (case handleCommand env chatId (toLowerCase env command) (join [32] args) st of
                                  (Some e, st1) \<Rightarrow> (Inl e, st1)
                                | (None, st1) \<Rightarrow> (Inr False, st1)))
                        else if trim t \<noteq> [] then
                          (case handleMessage env chatId t st of
                             (Some e, st1) \<Rightarrow> (Inl e, st1)
                           | (None, st1) \<Rightarrow> (Inr False, st1))
                        else (Inr False, st))))"

text \<open>The part of \<^verbatim>\<open>handleTelegramWebhook\<close> for \<^verbatim>\<open>update.callback_query\<close>.\<close>

definition webhookCallback :: "'n env \<Rightarrow> 'n json \<Rightarrow> 'n state \<Rightarrow> exn option \<times> 'n state" where
  "webhookCallback env update st =
     (case getProp (typeError env 682) (Some update) (js ''callback_query'') of
        Inl e \<Rightarrow> (Some e, st)
      | Inr cq \<Rightarrow>
          if \<not> truthy (numTruthy env) cq then (None, st)
          else
            (case bindE (getProp (typeError env 683) cq (js ''message''))
                    (\<lambda>m. bindE (getProp (typeError env 683) m (js ''chat''))
                    (\<lambda>chat. bindE (getProp (typeError env 683) chat (js ''id''))
                    (\<lambda>chatId. bindE (getProp (typeError env 684) cq (js ''data''))
                    (\<lambda>d. bindE (isAuthorized env chatId)
                    (\<lambda>authorized. bindE (getProp (typeError env 689) cq (js ''id''))
                    (\<lambda>qid. Inr (chatId, d, authorized, qid))))))) of
               Inl e \<Rightarrow> (Some e, st)
             | Inr (chatId, d, authorized, qid) \<Rightarrow>
                 if \<not> authorized
                 then (None, snd (telegramApi env (AnswerCallbackQuery qid (Some (fixed env 690 0)) True) st))
                 else
                   (let st1 = snd (telegramApi env (AnswerCallbackQuery qid None False) st)
                    in case asString env 704 d of
                         Inl e \<Rightarrow> (Some e, st1)
                       | Inr dat \<Rightarrow>
                           if startsWith dat (js ''resume:'') then
                             (let sessionId = replace_first (js ''resume:'') [] dat
                              in case weztermSendText env (js ''/resume '' @ sessionId) st1 of
                                   (Inl e, st2) \<Rightarrow> (Some e, st2)
                                 | (Inr b, st2) \<Rightarrow>
                                     say env chatId (fixed env 707 0 @ sessionId @ fixed env 707 1) st2)
                           else (None, st1))))"

definition handleTelegramWebhook :: "'n env \<Rightarrow> jsstring \<Rightarrow> 'n state \<Rightarrow> 'n response \<times> 'n state" where
  "handleTelegramWebhook env body st =
     (case JSON_parse env body of
        Inl m \<Rightarrow> ((500, Text (js ''Internal Server Error'')), st)
      | Inr update \<Rightarrow>
          (case webhookMessage env update st of
             (Inl e, st1) \<Rightarrow> ((500, Text (js ''Internal Server Error'')), st1)
           | (Inr True, st1) \<Rightarrow> ((200, Text (js ''OK'')), st1)
           | (Inr False, st1) \<Rightarrow>
               (case webhookCallback env update st1 of
                  (Some e, st2) \<Rightarrow> ((500, Text (js ''Internal Server Error'')), st2)
                | (None, st2) \<Rightarrow> ((200, Text (js ''OK'')), st2))))"

text \<open>\<^verbatim>\<open>handleHookRequest\<close>, the completion callback.\<close>

definition hookError :: "exn \<Rightarrow> 'n response" where
  "hookError e = (case e of Error m \<Rightarrow> (500, Json [(js ''ok'', JBool False), (js ''error'', JStr m)]))"

definition handleHookRequest :: "'n env \<Rightarrow> jsstring \<Rightarrow> 'n state \<Rightarrow> 'n response \<times> 'n state" where
  "handleHookRequest env body st =
     (case JSON_parse env body of
        Inl m \<Rightarrow> (hookError (Error m), st)
      | Inr data \<Rightarrow>
          (case bindE (getProp (typeError env 590) (Some data) (js ''message''))
                  (\<lambda>msg. bindE (getProp (typeError env 590) (Some data) (js ''cwd''))
                  (\<lambda>cwd. bindE (getProp (typeError env 590) (Some data) (js ''sessionId''))
                  (\<lambda>sessionId. Inr (msg, cwd, sessionId)))) of
             Inl e \<Rightarrow> (hookError e, st)
           | Inr (msg, cwd, sessionId) \<Rightarrow>
               (let st1 = stopTypingLoop st
                in if isMuted st1 then ((200, Json [(js ''ok'', JBool True), (js ''muted'', JBool True)]), st1)
                   else
                     (case getChatId st1 of
                        None \<Rightarrow> ((400, Json [(js ''ok'', JBool False), (js ''error'', JStr (js ''No chat ID''))]), st1)
                      | Some chatId \<Rightarrow>
                          if chatId = []
                          then ((400, Json [(js ''ok'', JBool False), (js ''error'', JStr (js ''No chat ID''))]), st1)
                          else if \<not> truthy (numTruthy env) msg
                          then ((200, Json [(js ''ok'', JBool True), (js ''empty'', JBool True)]), st1)
                          else
                            (case bindE (String_val (typeError env 622) (ToString env) (orElse env cwd (fixed env 620 0)))
                                    (\<lambda>cwdDisplay. bindE (String_val (typeError env 622) (ToString env)
                                                          (orElse env sessionId (fixed env 621 0)))
                                    (\<lambda>sessionDisplay. bindE (asString env 109 msg)
                                    (\<lambda>m. Inr (fixed env 622 0 @ cwdDisplay @ fixed env 622 1 @ sessionDisplay
                                               @ fixed env 622 2 @ markdownToTelegramHtml m)))) of
                               Inl e \<Rightarrow> (hookError e, st1)
                             | Inr htmlMessage \<Rightarrow>
                                 (let (result, st2) = sendMessageWithFallback env (Some (JStr chatId)) htmlMessage st1
                                  in if ok result then ((200, Json [(js ''ok'', JBool True)]), st2)
                                     else ((500, Json ((js ''ok'', JBool False)
                                              # (case description result of
                                                   None \<Rightarrow> []
                                                 | Some d \<Rightarrow> [(js ''error'', JStr d)]))), st2)))))))"

text \<open>\<^verbatim>\<open>handleRequest\<close>, by the method and the path of the request.\<close>

definition handleRequest ::
  "'n env \<Rightarrow> jsstring \<Rightarrow> jsstring \<Rightarrow> jsstring \<Rightarrow> 'n state \<Rightarrow> 'n response \<times> 'n state" where
  "handleRequest env method pathname body st =
     (if pathname = js ''/hook'' \<and> method = js ''POST'' then handleHookRequest env body st
      else if method = js ''POST'' then handleTelegramWebhook env body st
      else if pathname = js ''/health'' \<and> method = js ''GET''
      then ((200, Json [(js ''ok'', JBool True), (js ''muted'', JBool (isMuted st))]), st)
      else ((404, Text (js ''Not Found'')), st))"

section \<open>The completion extractor\<close>

text \<open>
  \<^verbatim>\<open>extractLastAssistantMessage\<close> of the hook script. \<open>blockText\<close> is the body of the loop over
  the content blocks: the text it pushes, if any.
\<close>

definition blockText :: "'n env \<Rightarrow> 'n json \<Rightarrow> exn + 'n jsval" where
  "blockText env block =
     bindE (getProp (typeError env 855) (Some block) (js ''type''))
       (\<lambda>ty. if ty = Some (JStr (js ''text''))
              then bindE (getProp (typeError env 855) (Some block) (js ''text''))
                     (\<lambda>t. Inr (if truthy (numTruthy env) t then t else None))
              else Inr None)"

fun collectText :: "'n env \<Rightarrow> 'n json list \<Rightarrow> exn + 'n json list" where
  "collectText env [] = Inr []"
| "collectText env (block # blocks) =
     bindE (blockText env block)
       (\<lambda>t. bindE (collectText env blocks)
          (\<lambda>ts. Inr (case t of None \<Rightarrow> ts | Some v \<Rightarrow> v # ts)))"

text \<open>\<^verbatim>\<open>textParts.join('\n')\<close>: every part is printed as a string.\<close>

fun stringsOf :: "'n env \<Rightarrow> 'n json list \<Rightarrow> exn + jsstring list" where
  "stringsOf env [] = Inr []"
| "stringsOf env (v # vs) =
     bindE (String_val (typeError env 864) (ToString env) (Some v))
       (\<lambda>s. bindE (stringsOf env vs) (\<lambda>ss. Inr (s # ss)))"

text \<open>
  The body of the \<^verbatim>\<open>try\<close> for one parsed line: the text the function returns at this line, or
  \<open>None\<close> when the loop goes on.
\<close>

definition entryText :: "'n env \<Rightarrow> 'n json \<Rightarrow> exn + jsstring option" where
  "entryText env entry =
     bindE (getProp (typeError env 849) (Some entry) (js ''type''))
       (\<lambda>ty. bindE (getProp (typeError env 849) (Some entry) (js ''message''))
       (\<lambda>msg.
          if ty = Some (JStr (js ''assistant'')) \<and> truthy (numTruthy env) msg then
            bindE (getProp (typeError env 853) msg (js ''content''))
              (\<lambda>content.
                 bindE (case content of
                          Some (JArr blocks) \<Rightarrow> collectText env blocks
                        | Some (JStr s) \<Rightarrow> Inr [JStr s]
                        | _ \<Rightarrow> Inr [])
                   (\<lambda>textParts.
                      if textParts \<noteq> []
                      then bindE (stringsOf env textParts) (\<lambda>ss. Inr (Some (join [10] ss)))
                      else Inr None))
          else Inr None))"

definition lineText :: "'n env \<Rightarrow> jsstring \<Rightarrow> jsstring option" where
  \<comment> \<open>one turn of the loop: an exception, of \<^verbatim>\<open>JSON.parse\<close> or later, is caught and the loop goes on\<close>
  "lineText env line =
     (case JSON_parse env line of
        Inl m \<Rightarrow> None
      | Inr entry \<Rightarrow> (case entryText env entry of Inl e \<Rightarrow> None | Inr r \<Rightarrow> r))"

text \<open>
  The loop \<^verbatim>\<open>for (let i = lines.length - 1; i >= 0; i--)\<close>, with \<open>i + 1\<close> as its counter; it
  starts at the number of lines, so every line it reads exists.
\<close>

fun scanLines :: "'n env \<Rightarrow> jsstring list \<Rightarrow> nat \<Rightarrow> jsstring option" where
  "scanLines env lines 0 = None"
| "scanLines env lines (Suc i) =
     (case lineText env (lines ! i) of Some t \<Rightarrow> Some t | None \<Rightarrow> scanLines env lines i)"

text \<open>The transcript is the content of the file, \<open>None\<close> when the file does not exist.\<close>

definition extractLastAssistantMessage :: "'n env \<Rightarrow> jsstring option \<Rightarrow> jsstring option" where
  "extractLastAssistantMessage env transcript =
     (case transcript of
        None \<Rightarrow> None
      | Some content \<Rightarrow>
          (let lines = split_char 10 (trim content) in scanLines env lines (length lines)))"

section \<open>Notions used to state the properties\<close>

text \<open>What \<^verbatim>\<open>escapeHtml\<close> makes of one code unit.\<close>

definition escapeChar :: "nat \<Rightarrow> jsstring" where
  "escapeChar c =
     (if c = 38 then js ''&amp;'' else if c = 60 then js ''&lt;'' else if c = 62 then js ''&gt;'' else [c])"

text \<open>A text without a backquote, an asterisk, an underscore or a tilde.\<close>

definition noMarkdown :: "jsstring \<Rightarrow> bool" where
  "noMarkdown s = (\<forall>c \<in> set s. c \<noteq> 96 \<and> c \<noteq> 42 \<and> c \<noteq> 95 \<and> c \<noteq> 126)"

text \<open>
  The text parts that a content block other than \<^verbatim>\<open>null\<close> contributes: the value of the
  property \<^verbatim>\<open>text\<close> of an object whose property \<^verbatim>\<open>type\<close> is the string \<^verbatim>\<open>text\<close>, when that
  value is truthy; nothing for every other block.
\<close>

definition textPart :: "'n env \<Rightarrow> 'n json \<Rightarrow> 'n json list" where
  "textPart env block =
     (case block of
        JObj b \<Rightarrow>
          (if map_of b (js ''type'') = Some (JStr (js ''text''))
           then (case map_of b (js ''text'') of
                   None \<Rightarrow> []
                 | Some t \<Rightarrow> if truthy (numTruthy env) (Some t) then [t] else [])
           else [])
      | _ \<Rightarrow> [])"

text \<open>
  The extraction as claim C3 words it: the record nearest the end whose declared role is
  \<^verbatim>\<open>assistant\<close> decides, and the result is its text, the string content itself or the texts of
  its blocks of type \<^verbatim>\<open>text\<close> joined by line feeds.
\<close>

definition declaredAssistant :: "'n env \<Rightarrow> jsstring \<Rightarrow> bool" where
  "declaredAssistant env line =
     (case JSON_parse env line of
        Inr (JObj r) \<Rightarrow> map_of r (js ''type'') = Some (JStr (js ''assistant''))
      | _ \<Rightarrow> False)"

definition claimed_blockTexts :: "'n json \<Rightarrow> jsstring list" where
  "claimed_blockTexts block =
     (case block of
        JObj b \<Rightarrow>
          (if map_of b (js ''type'') = Some (JStr (js ''text''))
           then (case map_of b (js ''text'') of Some (JStr s) \<Rightarrow> [s] | _ \<Rightarrow> [])
           else [])
      | _ \<Rightarrow> [])"

definition claimed_text :: "'n env \<Rightarrow> jsstring \<Rightarrow> jsstring" where
  "claimed_text env line =
     (case JSON_parse env line of
        Inr (JObj r) \<Rightarrow>
          (case map_of r (js ''message'') of
             Some (JObj m) \<Rightarrow>
               (case map_of m (js ''content'') of
                  Some (JStr s) \<Rightarrow> s
                | Some (JArr blocks) \<Rightarrow> join [10] (concat (map claimed_blockTexts blocks))
                | _ \<Rightarrow> [])
           | _ \<Rightarrow> [])
      | _ \<Rightarrow> [])"

definition claimed_extract :: "'n env \<Rightarrow> jsstring option \<Rightarrow> jsstring option" where
  "claimed_extract env transcript =
     (case transcript of
        None \<Rightarrow> None
      | Some content \<Rightarrow>
          (case find (declaredAssistant env) (rev (split_char 10 (trim content))) of
             None \<Rightarrow> None
           | Some line \<Rightarrow> Some (claimed_text env line)))"

section \<open>An instance of the surroundings\<close>

text \<open>
  The setting of the end-to-end scenarios: the allow-list holds the chat 111, the listing
  shows the pane 3 with the title \<^verbatim>\<open>shell\<close>, every shell command and every API call
  succeeds, and numbers print in decimal; an array prints as its elements between commas,
  \<^verbatim>\<open>null\<close> as nothing, and an object as \<^verbatim>\<open>[object Object]\<close> unless it has a property
  \<^verbatim>\<open>toString\<close> of its own, which makes the conversion throw. The callback notice of line 690
  is the seven code units that the file has for it; every other fixed text is stood for by
  its line and its number, as \<^verbatim>\<open>[667.0]\<close>. \<open>jstr s\<close> is the JSON text of the string \<open>s\<close>,
  between double quotes.
\<close>

definition example_fixed :: "nat \<Rightarrow> nat \<Rightarrow> jsstring" where
  "example_fixed l k =
     (if l = 690 then [230, 339, 170, 230, 710, 230, 402] else js ''['' @ String_nat l @ js ''.'' @ String_nat k @ js '']'')"

fun example_ToString :: "nat json \<Rightarrow> jsstring option" where
  "example_ToString JNull = Some (js ''null'')"
| "example_ToString (JBool b) = Some (if b then js ''true'' else js ''false'')"
| "example_ToString (JNum n) = Some (String_nat n)"
| "example_ToString (JStr s) = Some s"
| "example_ToString (JArr xs) =
     map_option (join [44]) (those (map (\<lambda>x. if x = JNull then Some [] else example_ToString x) xs))"
| "example_ToString (JObj kvs) =
     (if map_of kvs (js ''toString'') = None then Some (js ''[object Object]'') else None)"

definition jstr :: "string \<Rightarrow> jsstring" where
  "jstr s = [34] @ js s @ [34]"

text \<open>
  The bodies of three requests: the update with the message \<^verbatim>\<open>/mute\<close> of the chat 999,
  \<^verbatim>\<open>{"message":{"chat":{"id":999},"text":"/mute"}}\<close>; the update with a callback query of the
  chat 999, \<^verbatim>\<open>{"callback_query":{"id":"q1","data":"resume:abc","message":{"chat":{"id":999}}}}\<close>;
  and the completion callback of scenario D,
  \<^verbatim>\<open>{"message":"**done**","cwd":"/tmp","sessionId":"abc"}\<close>.
\<close>

definition message_body :: jsstring where
  "message_body =
     js ''{'' @ jstr ''message'' @ js '':{'' @ jstr ''chat'' @ js '':{'' @ jstr ''id'' @ js '':999},''
       @ jstr ''text'' @ js '':'' @ jstr ''/mute'' @ js ''}}''"

definition callback_body :: jsstring where
  "callback_body =
     js ''{'' @ jstr ''callback_query'' @ js '':{'' @ jstr ''id'' @ js '':'' @ jstr ''q1'' @ js '',''
       @ jstr ''data'' @ js '':'' @ jstr ''resume:abc'' @ js '','' @ jstr ''message'' @ js '':{''
       @ jstr ''chat'' @ js '':{'' @ jstr ''id'' @ js '':999}}}}''"

definition hook_body :: jsstring where
  "hook_body =
     js ''{'' @ jstr ''message'' @ js '':'' @ jstr ''**done**'' @ js '','' @ jstr ''cwd'' @ js '':''
       @ jstr ''/tmp'' @ js '','' @ jstr ''sessionId'' @ js '':'' @ jstr ''abc'' @ js ''}''"

text \<open>
  The lines of a transcript. \<open>assistant_line c\<close> is the assistant record with the content
  \<open>c\<close>, \<^verbatim>\<open>{"type":"assistant","message":{"content":c}}\<close>, and \<open>assistant_record v\<close> the
  value it parses to. The lines are: a user record, \<^verbatim>\<open>{"type":"user","message":{"content":"hi"}}\<close>;
  an assistant record with two text blocks, \<^verbatim>\<open>[{"type":"text","text":"A"},{"type":"text","text":"B"}]\<close>;
  one with a single block of another type, \<^verbatim>\<open>[{"type":"tool_use","name":"Bash"}]\<close>; one with
  the string content \<^verbatim>\<open>"done"\<close>; one whose first block is \<^verbatim>\<open>null\<close>,
  \<^verbatim>\<open>[null,{"type":"text","text":"A"}]\<close>; one with blocks of every kind,
  \<^verbatim>\<open>[{"type":"text","text":5},{"type":"text","text":""},{"type":"tool_use","name":"Bash"},"x",{"type":"text","text":"B"}]\<close>;
  one whose text does not print, \<^verbatim>\<open>[{"type":"text","text":{"toString":1}}]\<close>; and three records
  without a content, \<^verbatim>\<open>{"type":"assistant"}\<close>, \<^verbatim>\<open>{"type":"assistant","message":"hi"}\<close> and
  \<^verbatim>\<open>{"type":"assistant","message":{}}\<close>. The transcript has the first three of them, with a
  line that is not JSON in front of the last one.
\<close>

definition assistant_line :: "jsstring \<Rightarrow> jsstring" where
  "assistant_line c =
     js ''{'' @ jstr ''type'' @ js '':'' @ jstr ''assistant'' @ js '','' @ jstr ''message'' @ js '':{''
       @ jstr ''content'' @ js '':'' @ c @ js ''}}''"

definition assistant_record :: "nat json \<Rightarrow> nat json" where
  "assistant_record v =
     JObj [(js ''type'', JStr (js ''assistant'')), (js ''message'', JObj [(js ''content'', v)])]"

definition text_block_text :: "jsstring \<Rightarrow> jsstring" where
  \<comment> \<open>the JSON text of a block of type \<^verbatim>\<open>text\<close> with the text whose JSON text is \<open>t\<close>\<close>
  "text_block_text t =
     js ''{'' @ jstr ''type'' @ js '':'' @ jstr ''text'' @ js '','' @ jstr ''text'' @ js '':'' @ t @ js ''}''"

definition text_block :: "nat json \<Rightarrow> nat json" where
  "text_block t = JObj [(js ''type'', JStr (js ''text'')), (js ''text'', t)]"

definition tool_block_text :: jsstring where
  "tool_block_text =
     js ''{'' @ jstr ''type'' @ js '':'' @ jstr ''tool_use'' @ js '','' @ jstr ''name'' @ js '':''
       @ jstr ''Bash'' @ js ''}''"

definition tool_block :: "nat json" where
  "tool_block = JObj [(js ''type'', JStr (js ''tool_use'')), (js ''name'', JStr (js ''Bash''))]"

definition user_line :: jsstring where
  "user_line =
     js ''{'' @ jstr ''type'' @ js '':'' @ jstr ''user'' @ js '','' @ jstr ''message'' @ js '':{''
       @ jstr ''content'' @ js '':'' @ jstr ''hi'' @ js ''}}''"

definition text_line :: jsstring where
  "text_line =
     assistant_line (js ''['' @ text_block_text (jstr ''A'') @ js '','' @ text_block_text (jstr ''B'') @ js '']'')"

definition tool_line :: jsstring where
  "tool_line = assistant_line (js ''['' @ tool_block_text @ js '']'')"

definition string_line :: jsstring where
  "string_line = assistant_line (jstr ''done'')"

definition null_block_line :: jsstring where
  "null_block_line = assistant_line (js ''[null,'' @ text_block_text (jstr ''A'') @ js '']'')"

definition mixed_line :: jsstring where
  "mixed_line =
     assistant_line
       (js ''['' @ text_block_text (js ''5'') @ js '','' @ text_block_text (jstr []) @ js '',''
          @ tool_block_text @ js '','' @ jstr ''x'' @ js '','' @ text_block_text (jstr ''B'') @ js '']'')"

definition unprintable_line :: jsstring where
  "unprintable_line =
     assistant_line (js ''['' @ text_block_text (js ''{'' @ jstr ''toString'' @ js '':1}'') @ js '']'')"

definition bare_line :: jsstring where
  "bare_line = js ''{'' @ jstr ''type'' @ js '':'' @ jstr ''assistant'' @ js ''}''"

definition string_message_line :: jsstring where
  "string_message_line =
     js ''{'' @ jstr ''type'' @ js '':'' @ jstr ''assistant'' @ js '','' @ jstr ''message'' @ js '':''
       @ jstr ''hi'' @ js ''}''"

definition empty_message_line :: jsstring where
  "empty_message_line =
     js ''{'' @ jstr ''type'' @ js '':'' @ jstr ''assistant'' @ js '','' @ jstr ''message'' @ js '':{}}''"

definition example_transcript :: jsstring where
  "example_transcript = user_line @ [10] @ text_line @ [10] @ js ''not json'' @ [10] @ tool_line @ [10]"

text \<open>What \<^verbatim>\<open>JSON.parse\<close> makes of these texts and of \<^verbatim>\<open>null\<close>; it throws on every other text.\<close>

definition example_parse :: "jsstring \<Rightarrow> jsstring + nat json" where
  "example_parse s =
     (if s = message_body then
        Inr (JObj [(js ''message'',
                    JObj [(js ''chat'', JObj [(js ''id'', JNum 999)]), (js ''text'', JStr (js ''/mute''))])])
      else if s = callback_body then
        Inr (JObj [(js ''callback_query'',
                    JObj [(js ''id'', JStr (js ''q1'')), (js ''data'', JStr (js ''resume:abc'')),
                          (js ''message'', JObj [(js ''chat'', JObj [(js ''id'', JNum 999)])])])])
      else if s = hook_body then
        Inr (JObj [(js ''message'', JStr (js ''**done**'')), (js ''cwd'', JStr (js ''/tmp'')),
                   (js ''sessionId'', JStr (js ''abc''))])
      else if s = js ''null'' then Inr JNull
      else if s = user_line then
        Inr (JObj [(js ''type'', JStr (js ''user'')), (js ''message'', JObj [(js ''content'', JStr (js ''hi''))])])
      else if s = text_line then
        Inr (assistant_record (JArr [text_block (JStr (js ''A'')), text_block (JStr (js ''B''))]))
      else if s = tool_line then Inr (assistant_record (JArr [tool_block]))
      else if s = string_line then Inr (assistant_record (JStr (js ''done'')))
      else if s = null_block_line then Inr (assistant_record (JArr [JNull, text_block (JStr (js ''A''))]))
      else if s = mixed_line then
        Inr (assistant_record
               (JArr [text_block (JNum 5), text_block (JStr []), tool_block, JStr (js ''x''),
                      text_block (JStr (js ''B''))]))
      else if s = unprintable_line then
        Inr (assistant_record (JArr [text_block (JObj [(js ''toString'', JNum 1)])]))
      else if s = bare_line then Inr (JObj [(js ''type'', JStr (js ''assistant''))])
      else if s = string_message_line then
        Inr (JObj [(js ''type'', JStr (js ''assistant'')), (js ''message'', JStr (js ''hi''))])
      else if s = empty_message_line then
        Inr (JObj [(js ''type'', JStr (js ''assistant'')), (js ''message'', JObj [])])
      else Inl (js ''SyntaxError''))"

definition example_env :: "nat env" where
  "example_env =
     \<lparr>ALLOWED_CHAT_IDS = [js ''111''], WEZTERM_PANE_ID = None, fixed = example_fixed,
      engine_message = (\<lambda>l. js ''TypeError''), JSON_parse = example_parse,
      toLowerCase = (\<lambda>s. s), numTruthy = (\<lambda>n. n \<noteq> 0), ToString = example_ToString,
      wezterm_list = (\<lambda>tr. [\<lparr>pane_id = js ''3'', title = js ''shell''\<rparr>]),
      exec_error = (\<lambda>tr cmd. None), telegram = (\<lambda>tr call. \<lparr>ok = True, description = None\<rparr>),
      Date_now = (\<lambda>tr. 1700000000000)\<rparr>"

definition example_state :: "nat state" where
  "example_state =
     \<lparr>isMuted = False, selectedPaneId = Some (js ''3''), typingInterval = None,
      chat_id_file = Some (js ''111''), pane_id_file = Some (js ''3''), pending_file = None, trace = []\<rparr>"

section \<open>Evaluation and basic facts\<close>

named_theorems js_eval

lemmas js_eval_defs [js_eval] =
  js_def startsWith_def fence_def isWordChar_def isLineTerminator_def isWhiteSpace_def trim_def
  replace_first_def escapeHtml_def convertWith_def markdownToTelegramHtml_def
  hook_markdownToTelegramHtml_def String_nat.simps

named_theorems bridge_eval

lemmas bridge_eval_defs [bridge_eval] =
  example_env_def example_state_def example_fixed_def example_parse_def
  jstr_def message_body_def callback_body_def hook_body_def assistant_line_def assistant_record_def
  text_block_text_def text_block_def tool_block_text_def tool_block_def user_line_def text_line_def
  tool_line_def string_line_def null_block_line_def mixed_line_def unprintable_line_def
  bare_line_def string_message_line_def empty_message_line_def example_transcript_def
  typeError_def BLOCKED_COMMANDS_def MAX_MESSAGE_LENGTH_def telegramApi_def sendMessage_def
  sendMessageWithFallback_def stopTypingLoop_def startTypingLoop_def setupBotCommands_def
  getWeztermPanes_def saveSelectedPaneId_def clearSelectedPaneId_def hasPane_def paneExists_def
  envPaneId_def findClaudePaneId_def execSync_def sendTextCommand_def sendKeyCommand_def
  sendTextAndEnter_def weztermSendText_def weztermSendText_bridge_js_def weztermSendEscape_def
  bindE_def saveChatId_def getChatId_def setPending_def clearPending_def isAuthorized_def
  say_def titleOf_def String_paneId_def paneLine_def asString_def orElse_def

lemma replace_char_g_append:
  "replace_char_g c rep (a @ b) = replace_char_g c rep a @ replace_char_g c rep b"
  by (induction a) auto

lemma replace_char_g_concat:
  "replace_char_g c rep s = concat (map (\<lambda>x. if x = c then rep else [x]) s)"
  by (induction s) auto

lemma escapeHtml_Nil: "escapeHtml [] = []"
  by (simp add: escapeHtml_def)

lemma escapeHtml_Cons: "escapeHtml (c # cs) = escapeChar c @ escapeHtml cs"
  by (simp add: escapeHtml_def escapeChar_def js_def replace_char_g_append)

lemma escapeHtml_concat: "escapeHtml s = concat (map escapeChar s)"
  by (induction s) (simp_all add: escapeHtml_Nil escapeHtml_Cons)

lemma escapeHtml_append: "escapeHtml (a @ b) = escapeHtml a @ escapeHtml b"
  by (simp add: escapeHtml_concat)

lemma set_escapeHtml: "set (escapeHtml s) \<subseteq> set s \<union> set (js ''&amp;lt;gt;'')"
  by (induction s) (auto simp: escapeHtml_Nil escapeHtml_Cons escapeChar_def js_def)

section \<open>The converter on text without Markdown\<close>

lemma extractCodeBlocks_plain: "96 \<notin> set s \<Longrightarrow> extractCodeBlocks ph s bs = (s, bs)"
  by (induction s) (auto simp: startsWith_def fence_def js_def)

lemma extractInlineCodes_plain: "96 \<notin> set s \<Longrightarrow> extractInlineCodes ph s bs = (s, bs)"
  by (induction s) auto

lemma replaceEmphasis_plain: "d \<noteq> [] \<Longrightarrow> hd d \<notin> set s \<Longrightarrow> replaceEmphasis d opn cls s = s"
  by (induction s) (auto simp: startsWith_def neq_Nil_conv)

lemma convertWith_plain:
  assumes "noMarkdown s"
  shows "convertWith p1 p2 q1 q2 s = escapeHtml s"
proof -
  from assms have bt: "96 \<notin> set s"
    by (auto simp: noMarkdown_def)
  have e: "c \<notin> set (escapeHtml s)" if "c = 42 \<or> c = 95 \<or> c = 126" for c
    using that assms set_escapeHtml [of s] by (auto simp: noMarkdown_def js_def)
  show ?thesis
    by (simp add: convertWith_def extractCodeBlocks_plain extractInlineCodes_plain bt
        replaceEmphasis_plain e js_def)
qed

text \<open>
  Claim C2, as the code has it. The converter escapes every ampersand of the text outside the
  code spans, those of entity references included: in a text without Markdown delimiters
  around it, the five code units \<^verbatim>\<open>&lt;\<close> come out as \<^verbatim>\<open>&amp;lt;\<close>, in the bridge's converter
  and in the hook script's. The converter is not idempotent on escaped entities.
\<close>

theorem converter_escapes_entity_again:
  assumes "noMarkdown a" and "noMarkdown b"
  shows "markdownToTelegramHtml (a @ js ''&lt;'' @ b) = escapeHtml a @ js ''&amp;lt;'' @ escapeHtml b
       \<and> hook_markdownToTelegramHtml (a @ js ''&lt;'' @ b) = escapeHtml a @ js ''&amp;lt;'' @ escapeHtml b"
proof -
  have "noMarkdown (a @ js ''&lt;'' @ b)"
    using assms by (auto simp: noMarkdown_def js_def)
  then have "markdownToTelegramHtml (a @ js ''&lt;'' @ b) = escapeHtml (a @ js ''&lt;'' @ b)"
    and "hook_markdownToTelegramHtml (a @ js ''&lt;'' @ b) = escapeHtml (a @ js ''&lt;'' @ b)"
    by (simp_all add: markdownToTelegramHtml_def hook_markdownToTelegramHtml_def convertWith_plain)
  moreover have "escapeHtml (js ''&lt;'') = js ''&amp;lt;''"
    by (simp add: escapeHtml_def js_def)
  ultimately show ?thesis
    by (simp add: escapeHtml_append)
qed

text \<open>The theorem of C2 at the text \<^verbatim>\<open>1 &lt; 2\<close>.\<close>

theorem converter_escapes_entity_again_witness:
  "noMarkdown (js ''1 '') \<and> noMarkdown (js '' 2'')
   \<and> markdownToTelegramHtml (js ''1 &lt; 2'') = js ''1 &amp;lt; 2''"
  using converter_escapes_entity_again [of "js ''1 ''" "js '' 2''"]
  by (simp add: noMarkdown_def js_eval)

text \<open>
  Claim C2 as it is stated fails: the input \<^verbatim>\<open>&lt;\<close> does not come out unchanged, and the
  converter applied to its own output for \<^verbatim>\<open><\<close> changes it again.
\<close>

theorem converter_not_idempotent:
  "markdownToTelegramHtml (js ''&lt;'') = js ''&amp;lt;''
   \<and> markdownToTelegramHtml (js ''&lt;'') \<noteq> js ''&lt;''
   \<and> markdownToTelegramHtml (markdownToTelegramHtml (js ''<'')) \<noteq> markdownToTelegramHtml (js ''<'')"
  by (simp add: js_eval)

text \<open>
  Claim C6 fails on the code. A text that holds the placeholder of a code block in front of
  the block takes the block's place: the user's \<^verbatim>\<open><<<CODEBLOCK0>>>\<close> becomes the block and the
  block's own position keeps the escaped placeholder. And the restoring does not put back
  the protected fragment as it is: the inline code \<^verbatim>\<open>$$\<close> comes back as one dollar sign.
\<close>

theorem placeholder_collision:
  "markdownToTelegramHtml (js ''<<<CODEBLOCK0>>> ``` x ```'')
     = js ''<pre><code>x</code></pre> &lt;&lt;&lt;CODEBLOCK0&gt;&gt;&gt;''
   \<and> markdownToTelegramHtml (js ''`$$`'') = js ''<code>$</code>''"
  by (simp add: js_eval)

text \<open>
  Claim C7 fails on the code. The fenced code block that holds \<^verbatim>\<open>$&\<close> between two line feeds
  does not come out as the preformatted block of \<^verbatim>\<open>$&amp;\<close>: the restoring reads \<^verbatim>\<open>$&\<close> as the
  matched text and puts the escaped placeholder there, so the ampersand is not escaped.
\<close>

theorem fenced_block_not_escaped:
  "markdownToTelegramHtml (js ''```'' @ [10] @ js ''$&'' @ [10] @ js ''```'')
     = js ''<pre><code>&lt;&lt;&lt;CODEBLOCK0&gt;&gt;&gt;amp;</code></pre>''
   \<and> markdownToTelegramHtml (js ''```'' @ [10] @ js ''$&'' @ [10] @ js ''```'')
     \<noteq> js ''<pre><code>$&amp;</code></pre>''"
  by (simp add: js_eval)

subsection \<open>Code without dollar signs\<close>

lemma find_sub_closing:
  "hd pat \<notin> set code \<Longrightarrow> pat \<noteq> [] \<Longrightarrow> find_sub pat (code @ pat) = Some (code, [])"
proof (induction code)
  case Nil
  then show ?case by (cases pat) (simp_all add: startsWith_def)
next
  case (Cons c cs)
  then have "\<not> startsWith (c # cs @ pat) pat"
    by (cases pat) (auto simp: startsWith_def)
  with Cons show ?case by simp
qed

lemma getSubstitution_no_dollar:
  "36 \<notin> set t \<Longrightarrow> getSubstitution m pre post t = t"
  by (induction m pre post t rule: getSubstitution.induct) auto

lemma set_trim: "set (trim s) \<subseteq> set s"
proof -
  have "set (dropWhile P xs) \<subseteq> set xs" for P and xs :: "nat list"
    by (meson set_dropWhileD subsetI)
  then show ?thesis
    unfolding trim_def by (metis (no_types, lifting) order_trans set_rev)
qed

lemma no_dollar_block:
  assumes "36 \<notin> set code"
  shows "36 \<notin> set (js ''<pre><code>'' @ escapeHtml (trim code) @ js ''</code></pre>'')"
    and "36 \<notin> set (js ''<code>'' @ escapeHtml code @ js ''</code>'')"
proof -
  have "36 \<notin> set (escapeHtml s)" if "36 \<notin> set s" for s
    using that set_escapeHtml [of s] by (auto simp: js_def)
  moreover have "36 \<notin> set (trim code)"
    using assms set_trim [of code] by auto
  ultimately show "36 \<notin> set (js ''<pre><code>'' @ escapeHtml (trim code) @ js ''</code></pre>'')"
    and "36 \<notin> set (js ''<code>'' @ escapeHtml code @ js ''</code>'')"
    using assms by (auto simp: js_def)
qed

lemma convertWith_stages:
  assumes "extractCodeBlocks bp s [] = (r1, codeBlocks)"
    and "extractInlineCodes ip r1 [] = (r2, inlineCodes)"
  shows "convertWith bp ip bpat ipat s =
           restore ipat 0 inlineCodes (restore bpat 0 codeBlocks
             (replaceEmphasis (js ''~~'') (js ''<s>'') (js ''</s>'')
               (replaceEmphasis (js ''__'') (js ''<u>'') (js ''</u>'')
                 (replaceEmphasis (js ''*'') (js ''<i>'') (js ''</i>'')
                   (replaceEmphasis (js ''**'') (js ''<b>'') (js ''</b>'') (escapeHtml r2))))))"
  using assms by (simp add: convertWith_def)

lemma placeholder_stages:
  "extractInlineCodes ip (js ''<<<CODEBLOCK0>>>'') [] = (js ''<<<CODEBLOCK0>>>'', [])"
  "replaceEmphasis (js ''~~'') (js ''<s>'') (js ''</s>'')
     (replaceEmphasis (js ''__'') (js ''<u>'') (js ''</u>'')
       (replaceEmphasis (js ''*'') (js ''<i>'') (js ''</i>'')
         (replaceEmphasis (js ''**'') (js ''<b>'') (js ''</b>'') (escapeHtml (js ''<<<CODEBLOCK0>>>'')))))
     = js ''&lt;&lt;&lt;CODEBLOCK0&gt;&gt;&gt;''"
  "replaceEmphasis (js ''~~'') (js ''<s>'') (js ''</s>'')
     (replaceEmphasis (js ''__'') (js ''<u>'') (js ''</u>'')
       (replaceEmphasis (js ''*'') (js ''<i>'') (js ''</i>'')
         (replaceEmphasis (js ''**'') (js ''<b>'') (js ''</b>'') (escapeHtml (js ''<<<INLINECODE0>>>'')))))
     = js ''&lt;&lt;&lt;INLINECODE0&gt;&gt;&gt;''"
  "find_sub (js ''&lt;&lt;&lt;CODEBLOCK0&gt;&gt;&gt;'') (js ''&lt;&lt;&lt;CODEBLOCK0&gt;&gt;&gt;'') = Some ([], [])"
  "find_sub (js ''&lt;&lt;&lt;INLINECODE0&gt;&gt;&gt;'') (js ''&lt;&lt;&lt;INLINECODE0&gt;&gt;&gt;'') = Some ([], [])"
  "js ''<<<CODEBLOCK'' @ String_nat 0 @ js ''>>>'' = js ''<<<CODEBLOCK0>>>''"
  "js ''<<<INLINECODE'' @ String_nat 0 @ js ''>>>'' = js ''<<<INLINECODE0>>>''"
  "js ''&lt;&lt;&lt;CODEBLOCK'' @ String_nat 0 @ js ''&gt;&gt;&gt;'' = js ''&lt;&lt;&lt;CODEBLOCK0&gt;&gt;&gt;''"
  "js ''&lt;&lt;&lt;INLINECODE'' @ String_nat 0 @ js ''&gt;&gt;&gt;'' = js ''&lt;&lt;&lt;INLINECODE0&gt;&gt;&gt;''"
  by (simp_all add: js_eval)

text \<open>
  What the code does for a fenced block and for an inline span on their own, when the code
  inside holds no backquote and no dollar sign: the block comes out as the preformatted block
  of its trimmed and escaped content, the span as the inline code of its escaped content, and
  nothing inside is taken for emphasis.
\<close>

lemma fenced_block_without_dollar:
  assumes "\<forall>c \<in> set lang. isWordChar c" and "96 \<notin> set code" and "36 \<notin> set code"
  shows "markdownToTelegramHtml (fence @ lang @ [10] @ code @ fence)
           = js ''<pre><code>'' @ escapeHtml (trim code) @ js ''</code></pre>''"
proof -
  let ?block = "js ''<pre><code>'' @ escapeHtml (trim code) @ js ''</code></pre>''"
  let ?bp = "\<lambda>index. js ''<<<CODEBLOCK'' @ String_nat index @ js ''>>>''"
  have dw: "dropWhile isWordChar (lang @ 10 # code @ fence) = 10 # code @ fence"
    using assms(1) by (simp add: dropWhile_append2 isWordChar_def)
  have close: "find_sub fence (code @ fence) = Some (code, [])"
    using assms(2) by (intro find_sub_closing) (simp_all add: fence_def js_def)
  have f: "fence = [96, 96, 96]"
    by (simp add: fence_def js_def)
  have 1: "extractCodeBlocks ?bp (fence @ lang @ [10] @ code @ fence) [] = (js ''<<<CODEBLOCK0>>>'', [?block])"
    using dw close by (simp add: f startsWith_def placeholder_stages del: find_sub.simps)
  have 2: "getSubstitution m [] [] ?block = ?block" for m
    using no_dollar_block(1) [OF assms(3)] by (rule getSubstitution_no_dollar)
  show ?thesis
    unfolding markdownToTelegramHtml_def convertWith_stages [OF 1 placeholder_stages(1)]
    by (simp add: placeholder_stages replace_first_def 2 del: find_sub.simps)
qed

lemma extractCodeBlocks_no_fence:
  "96 \<notin> set (butlast s) \<Longrightarrow> extractCodeBlocks ph s bs = (s, bs)"
proof (induction s)
  case Nil
  then show ?case by simp
next
  case (Cons c cs)
  show ?case
  proof (cases cs)
    case Nil
    then show ?thesis by (simp add: startsWith_def fence_def js_def)
  next
    case (Cons d ds)
    with Cons.prems Cons.IH show ?thesis
      by (auto simp: startsWith_def fence_def js_def)
  qed
qed

lemma inline_code_without_dollar:
  assumes "code \<noteq> []" and "96 \<notin> set code" and "36 \<notin> set code"
  shows "markdownToTelegramHtml ([96] @ code @ [96]) = js ''<code>'' @ escapeHtml code @ js ''</code>''"
proof -
  let ?span = "js ''<code>'' @ escapeHtml code @ js ''</code>''"
  let ?ip = "\<lambda>index. js ''<<<INLINECODE'' @ String_nat index @ js ''>>>''"
  have tw: "takeWhile (\<lambda>x. x \<noteq> 96) (code @ [96]) = code"
    and dw: "dropWhile (\<lambda>x. x \<noteq> 96) (code @ [96]) = [96]"
    using assms(2) by (induction code) auto
  obtain c cs where code: "code = c # cs" and c: "c \<noteq> 96"
    using assms(1,2) by (cases code) auto
  have "extractCodeBlocks ph (cs @ [96]) [] = (cs @ [96], [])" for ph
    using assms(2) code by (intro extractCodeBlocks_no_fence) simp
  then have 0: "extractCodeBlocks ph ([96] @ code @ [96]) [] = ([96] @ code @ [96], [])" for ph
    using c code by (simp add: startsWith_def fence_def js_def)
  have 1: "extractInlineCodes ?ip ([96] @ code @ [96]) [] = (js ''<<<INLINECODE0>>>'', [?span])"
    using assms(1) tw dw by (simp add: placeholder_stages)
  have 2: "getSubstitution m [] [] ?span = ?span" for m
    using no_dollar_block(2) [OF assms(3)] by (rule getSubstitution_no_dollar)
  show ?thesis
    unfolding markdownToTelegramHtml_def convertWith_stages [OF 0 1]
    by (simp add: placeholder_stages replace_first_def 2 del: find_sub.simps)
qed

text \<open>
  The converter of the hook script loses every code block: the underline rule rewrites its
  placeholder before the block is put back.
\<close>

lemma hook_converter_loses_code_block:
  "hook_markdownToTelegramHtml (js ''``` x ```'') = js ''<u>CODE_BLOCK_0</u>''"
  by (simp add: js_eval)

section \<open>The pane registry and the dispatcher\<close>

text \<open>
  Claim C4. When a pane is selected, the fresh listing does not show it and the environment
  names no pane, \<^verbatim>\<open>findClaudePaneId\<close> returns \<^verbatim>\<open>null\<close> and leaves no selection, neither in memory
  nor in the pane-id file; apart from that it has only run the listing command.
\<close>

theorem findClaudePaneId_clears_stale_selection:
  assumes "selectedPaneId st = Some p"
    and "\<not> hasPane (wezterm_list env (trace st)) p"
    and "WEZTERM_PANE_ID env = None"
  shows "findClaudePaneId env st =
           (None, st\<lparr>selectedPaneId := None, pane_id_file := None,
                      trace := trace st @ [Exec (js ''wezterm cli list --format json'')]\<rparr>)"
  using assms
  by (simp add: findClaudePaneId_def paneExists_def getWeztermPanes_def clearSelectedPaneId_def
      envPaneId_def)

text \<open>The theorem of C4 where the pane 7 is selected and the listing shows only the pane 3.\<close>

theorem findClaudePaneId_clears_stale_selection_witness:
  "selectedPaneId (example_state\<lparr>selectedPaneId := Some (js ''7''), pane_id_file := Some (js ''7'')\<rparr>)
     = Some (js ''7'')
   \<and> \<not> hasPane (wezterm_list example_env []) (js ''7'')
   \<and> WEZTERM_PANE_ID example_env = None
   \<and> findClaudePaneId example_env
         (example_state\<lparr>selectedPaneId := Some (js ''7''), pane_id_file := Some (js ''7'')\<rparr>)
       = (None, example_state\<lparr>selectedPaneId := None, pane_id_file := None,
                   trace := [Exec (js ''wezterm cli list --format json'')]\<rparr>)"
  using findClaudePaneId_clears_stale_selection
    [of "example_state\<lparr>selectedPaneId := Some (js ''7''), pane_id_file := Some (js ''7'')\<rparr>"
        "js ''7''" example_env]
  by (simp add: example_env_def example_state_def hasPane_def js_def)

lemma sendTextAndEnter_trace:
  "\<exists>evs. trace (snd (sendTextAndEnter env p t st))
     = trace st @ Exec (sendTextCommand p (replace_char_g 34 [34, 34] t)) # evs"
  by (simp add: sendTextAndEnter_def execSync_def Let_def split: prod.splits option.splits)

text \<open>
  Claim C10. Once the pane \<open>p\<close> is resolved, the first command the dispatcher runs is the
  \<^verbatim>\<open>send-text\<close> command line with the payload between double quotes, in which every double
  quote (code unit 34) of the payload is doubled and every other code unit stands as it is.
  The dispatcher of \<^verbatim>\<open>src/bridge.js\<close> does the same.
\<close>

theorem weztermSendText_doubles_quotes_only:
  assumes "findClaudePaneId env st1 = (Some p, st2)" and "p \<noteq> []"
  shows "(st1 = snd (getWeztermPanes env st) \<and> wezterm_list env (trace st) \<noteq> []
            \<and> hasPane (wezterm_list env (trace st)) p \<longrightarrow>
          (\<exists>evs. trace (snd (weztermSendText env t st)) =
             trace st2 @ Exec (js ''wezterm cli send-text --pane-id '' @ p @ js '' --no-paste '' @ [34]
                  @ concat (map (\<lambda>c. if c = 34 then [34, 34] else [c]) t) @ [34]) # evs))
       \<and> (\<exists>evs. trace (snd (weztermSendText_bridge_js env t st1)) =
             trace st2 @ Exec (js ''wezterm cli send-text --pane-id '' @ p @ js '' --no-paste '' @ [34]
                  @ concat (map (\<lambda>c. if c = 34 then [34, 34] else [c]) t) @ [34]) # evs)"
proof (intro conjI impI)
  assume a: "st1 = snd (getWeztermPanes env st) \<and> wezterm_list env (trace st) \<noteq> []
            \<and> hasPane (wezterm_list env (trace st)) p"
  have "weztermSendText env t st = sendTextAndEnter env p t st2"
    using assms a by (simp add: weztermSendText_def getWeztermPanes_def split: prod.splits)
  then show "\<exists>evs. trace (snd (weztermSendText env t st)) =
             trace st2 @ Exec (js ''wezterm cli send-text --pane-id '' @ p @ js '' --no-paste '' @ [34]
                  @ concat (map (\<lambda>c. if c = 34 then [34, 34] else [c]) t) @ [34]) # evs"
    using sendTextAndEnter_trace [of env p t st2]
    by (simp add: sendTextCommand_def replace_char_g_concat)
next
  have "weztermSendText_bridge_js env t st1 = sendTextAndEnter env p t st2"
    using assms by (simp add: weztermSendText_bridge_js_def)
  then show "\<exists>evs. trace (snd (weztermSendText_bridge_js env t st1)) =
             trace st2 @ Exec (js ''wezterm cli send-text --pane-id '' @ p @ js '' --no-paste '' @ [34]
                  @ concat (map (\<lambda>c. if c = 34 then [34, 34] else [c]) t) @ [34]) # evs"
    using sendTextAndEnter_trace [of env p t st2]
    by (simp add: sendTextCommand_def replace_char_g_concat)
qed

text \<open>
  The theorem of C10 for the payload \<^verbatim>\<open>a"$`\<close> followed by a line feed: the command line holds
  \<^verbatim>\<open>a""$`\<close> and the line feed.
\<close>

theorem weztermSendText_doubles_quotes_only_witness:
  "findClaudePaneId example_env (example_state\<lparr>trace := [Exec (js ''wezterm cli list --format json'')]\<rparr>)
     = (Some (js ''3''), example_state\<lparr>trace := [Exec (js ''wezterm cli list --format json''),
                                                  Exec (js ''wezterm cli list --format json'')]\<rparr>)
   \<and> (\<exists>evs. trace (snd (weztermSendText example_env ([97, 34, 36, 96, 10]) example_state)) =
          [Exec (js ''wezterm cli list --format json''), Exec (js ''wezterm cli list --format json''),
           Exec (js ''wezterm cli send-text --pane-id 3 --no-paste '' @ [34] @ [97, 34, 34, 36, 96, 10] @ [34])]
          @ evs)"
  using weztermSendText_doubles_quotes_only
    [of example_env "example_state\<lparr>trace := [Exec (js ''wezterm cli list --format json'')]\<rparr>"
        "js ''3''"
        "example_state\<lparr>trace := [Exec (js ''wezterm cli list --format json''),
                                   Exec (js ''wezterm cli list --format json'')]\<rparr>"
        example_state "[97, 34, 36, 96, 10]"]
  by (simp add: bridge_eval js_def)

section \<open>The command router\<close>

lemma startTypingLoop_eq:
  "startTypingLoop env chatId st =
     st\<lparr>typingInterval := Some chatId, trace := trace st @ [Api (SendChatAction chatId)]\<rparr>"
  by (simp add: startTypingLoop_def stopTypingLoop_def telegramApi_def)

lemma say_eq:
  "say env chatId m st =
     (None, st\<lparr>trace := trace st @ [Api (SendMessage chatId (take 4000 m) (Some (js ''HTML'')))]\<rparr>)"
  by (simp add: say_def sendMessage_def telegramApi_def MAX_MESSAGE_LENGTH_def)

text \<open>
  Claim C8. For \<^verbatim>\<open>/setpane\<close> with an argument whose trimmed text is not the id of a pane of
  the fresh listing, the handler only records the chat, runs the listing command and sends
  the not-found message: the selection in memory and the pane-id file are as before. In
  general the selection after \<^verbatim>\<open>/setpane\<close> is the trimmed argument when the listing shows it,
  and the old selection otherwise.
\<close>

theorem setpane_absent_keeps_selection:
  assumes "toString_val (typeError env 342) (ToString env) chatId = Inr c"
  shows "(trim args \<noteq> [] \<and> \<not> hasPane (wezterm_list env (trace st)) (trim args) \<longrightarrow>
           handleCommand env chatId (js ''/setpane'') args st =
             (None, st\<lparr>chat_id_file := Some c,
                        trace := trace st @ [Exec (js ''wezterm cli list --format json''),
                          Api (SendMessage chatId (take 4000 (fixed env 465 0 @ trim args @ fixed env 465 1))
                                 (Some (js ''HTML'')))]\<rparr>))
       \<and> selectedPaneId (snd (handleCommand env chatId (js ''/setpane'') args st)) =
           (if trim args \<noteq> [] \<and> hasPane (wezterm_list env (trace st)) (trim args)
            then Some (trim args) else selectedPaneId st)
       \<and> pane_id_file (snd (handleCommand env chatId (js ''/setpane'') args st)) =
           (if trim args \<noteq> [] \<and> hasPane (wezterm_list env (trace st)) (trim args)
            then Some (trim args) else pane_id_file st)"
  using assms
  by (simp add: handleCommand_def saveChatId_def bindE_def js_def say_eq getWeztermPanes_def
      saveSelectedPaneId_def Let_def)

text \<open>
  The theorem of C8 for \<^verbatim>\<open>/setpane 9\<close> from the chat 111 while the listing shows only the
  pane 3 and the pane 3 is selected.
\<close>

theorem setpane_absent_keeps_selection_witness:
  "toString_val (typeError example_env 342) (ToString example_env) (Some (JNum 111)) = Inr (js ''111'')
   \<and> trim (js ''9 '') = js ''9''
   \<and> \<not> hasPane (wezterm_list example_env (trace example_state)) (js ''9'')
   \<and> handleCommand example_env (Some (JNum 111)) (js ''/setpane'') (js ''9 '') example_state =
       (None, example_state\<lparr>trace := [Exec (js ''wezterm cli list --format json''),
                Api (SendMessage (Some (JNum 111)) (js ''[465.0]9[465.1]'') (Some (js ''HTML'')))]\<rparr>)
   \<and> selectedPaneId (snd (handleCommand example_env (Some (JNum 111)) (js ''/setpane'') (js ''9 '')
         example_state)) = Some (js ''3'')"
  using setpane_absent_keeps_selection [of example_env "Some (JNum 111)" "js ''111''" "js ''9 ''" example_state]
  by (simp add: bridge_eval js_eval)

lemma findClaudePaneId_pending:
  "pending_file (snd (findClaudePaneId env st)) = pending_file st"
  by (simp add: findClaudePaneId_def paneExists_def getWeztermPanes_def clearSelectedPaneId_def
      split: option.splits)

lemma sendTextAndEnter_pending:
  "pending_file (snd (sendTextAndEnter env p t st)) = pending_file st"
  by (simp add: sendTextAndEnter_def execSync_def Let_def split: option.splits prod.splits)

lemma weztermSendText_pending:
  "pending_file (snd (weztermSendText env t st)) = pending_file st"
proof -
  obtain p st2 where f: "findClaudePaneId env (snd (getWeztermPanes env st)) = (p, st2)"
    by (cases "findClaudePaneId env (snd (getWeztermPanes env st))")
  then have "pending_file st2 = pending_file st"
    using findClaudePaneId_pending [of env "snd (getWeztermPanes env st)"]
    by (simp add: getWeztermPanes_def)
  then show ?thesis
    using f
    by (simp add: weztermSendText_def getWeztermPanes_def clearSelectedPaneId_def
        sendTextAndEnter_pending split: option.splits)
qed

lemma handleMessage_pending:
  "pending_file (snd (handleMessage env chatId t st0)) = pending_file st0"
proof (cases "saveChatId env chatId st0")
  case (Inl e)
  then show ?thesis by (simp add: handleMessage_def)
next
  case (Inr st)
  then have st: "pending_file st = pending_file st0"
    by (auto simp: saveChatId_def bindE_def split: sum.splits)
  obtain p st1 where f: "findClaudePaneId env st = (p, st1)"
    by (cases "findClaudePaneId env st")
  then have st1: "pending_file st1 = pending_file st"
    using findClaudePaneId_pending [of env st] by simp
  obtain r st2 where w: "weztermSendText env t (startTypingLoop env chatId st1) = (r, st2)"
    by (cases "weztermSendText env t (startTypingLoop env chatId st1)")
  then have st2: "pending_file st2 = pending_file st1"
    using weztermSendText_pending [of env t "startTypingLoop env chatId st1"]
    by (simp add: startTypingLoop_eq)
  show ?thesis
    using Inr f w st st1 st2
    by (simp add: handleMessage_def say_eq stopTypingLoop_def split: sum.splits exn.splits)
qed

text \<open>
  Claim C5, as the code has it. For a free-text message of a chat whose id can be recorded,
  with a pane resolved and a text that no denylisted command starts, the handler of the bridge
  dispatches the text in the state in which the typing timer runs (its first signal has been
  sent); when the dispatch throws, the handler stops the timer and sends the fixed prefix of
  line 573 followed by the error's message. This handler never writes the pending marker.
  The handler of \<^verbatim>\<open>src/bridge.js\<close> dispatches in the state in which the pending marker is
  written and the timer runs, and when the dispatch throws it stops the timer, removes the
  marker and sends the same message.
\<close>

theorem handleMessage_dispatch:
  assumes "saveChatId env chatId st0 = Inr st"
    and "findClaudePaneId env st = (Some p, st1)"
    and "\<not> list_ex (\<lambda>cmd. startsWith (toLowerCase env t) cmd) BLOCKED_COMMANDS"
  shows "handleMessage env chatId t st0 =
           (case weztermSendText env t
                   (st1\<lparr>typingInterval := Some chatId, trace := trace st1 @ [Api (SendChatAction chatId)]\<rparr>) of
              (Inr b, st3) \<Rightarrow> (None, st3)
            | (Inl (Error m), st3) \<Rightarrow>
                (None, st3\<lparr>typingInterval := None,
                           trace := trace st3 @ [Api (SendMessage chatId (take 4000 (fixed env 573 0 @ m))
                                                       (Some (js ''HTML'')))]\<rparr>))
       \<and> pending_file (snd (handleMessage env chatId t st0)) = pending_file st0
       \<and> handleMessage_bridge_js env chatId t st0 =
           (case weztermSendText_bridge_js env t
                   (st1\<lparr>pending_file := Some (String_nat (Date_now env (trace st1))),
                        typingInterval := Some chatId, trace := trace st1 @ [Api (SendChatAction chatId)]\<rparr>) of
              (Inr b, st3) \<Rightarrow> (None, st3)
            | (Inl (Error m), st3) \<Rightarrow>
                (None, st3\<lparr>typingInterval := None, pending_file := None,
                           trace := trace st3 @ [Api (SendMessage chatId (take 4000 (fixed env 573 0 @ m))
                                                       (Some (js ''HTML'')))]\<rparr>))"
proof (intro conjI)
  show "handleMessage env chatId t st0 =
           (case weztermSendText env t
                   (st1\<lparr>typingInterval := Some chatId, trace := trace st1 @ [Api (SendChatAction chatId)]\<rparr>) of
              (Inr b, st3) \<Rightarrow> (None, st3)
            | (Inl (Error m), st3) \<Rightarrow>
                (None, st3\<lparr>typingInterval := None,
                           trace := trace st3 @ [Api (SendMessage chatId (take 4000 (fixed env 573 0 @ m))
                                                       (Some (js ''HTML'')))]\<rparr>))"
    using assms
    by (simp add: handleMessage_def startTypingLoop_eq say_eq stopTypingLoop_def
        split: sum.splits exn.splits prod.splits)
  show "pending_file (snd (handleMessage env chatId t st0)) = pending_file st0"
    by (rule handleMessage_pending)
  show "handleMessage_bridge_js env chatId t st0 =
           (case weztermSendText_bridge_js env t
                   (st1\<lparr>pending_file := Some (String_nat (Date_now env (trace st1))),
                        typingInterval := Some chatId, trace := trace st1 @ [Api (SendChatAction chatId)]\<rparr>) of
              (Inr b, st3) \<Rightarrow> (None, st3)
            | (Inl (Error m), st3) \<Rightarrow>
                (None, st3\<lparr>typingInterval := None, pending_file := None,
                           trace := trace st3 @ [Api (SendMessage chatId (take 4000 (fixed env 573 0 @ m))
                                                       (Some (js ''HTML'')))]\<rparr>))"
    using assms
    by (simp add: handleMessage_bridge_js_def startTypingLoop_eq say_eq stopTypingLoop_def
        setPending_def clearPending_def split: sum.splits exn.splits prod.splits)
qed

text \<open>
  The theorem of C5 where the \<^verbatim>\<open>send-text\<close> command fails with the message \<^verbatim>\<open>spawn failed\<close>:
  the chat 111 sends \<^verbatim>\<open>hello\<close>, the timer is stopped again, and the chat gets the prefix
  and the message; the handler of \<^verbatim>\<open>src/bridge.js\<close> leaves no pending marker.
\<close>

theorem handleMessage_dispatch_witness:
  "saveChatId (example_env\<lparr>exec_error := \<lambda>tr cmd. Some (js ''spawn failed'')\<rparr>) (Some (JNum 111)) example_state
     = Inr example_state
   \<and> findClaudePaneId (example_env\<lparr>exec_error := \<lambda>tr cmd. Some (js ''spawn failed'')\<rparr>) example_state
     = (Some (js ''3''), example_state\<lparr>trace := [Exec (js ''wezterm cli list --format json'')]\<rparr>)
   \<and> \<not> list_ex (\<lambda>cmd. startsWith (js ''hello'') cmd) BLOCKED_COMMANDS
   \<and> handleMessage (example_env\<lparr>exec_error := \<lambda>tr cmd. Some (js ''spawn failed'')\<rparr>) (Some (JNum 111))
        (js ''hello'') example_state
     = (None, example_state\<lparr>trace :=
          [Exec (js ''wezterm cli list --format json''),
           Api (SendChatAction (Some (JNum 111))),
           Exec (js ''wezterm cli list --format json''),
           Exec (js ''wezterm cli list --format json''),
           Exec (js ''wezterm cli send-text --pane-id 3 --no-paste '' @ [34] @ js ''hello'' @ [34]),
           Api (SendMessage (Some (JNum 111)) (js ''[573.0]spawn failed'') (Some (js ''HTML'')))]\<rparr>)
   \<and> pending_file (snd (handleMessage_bridge_js
         (example_env\<lparr>exec_error := \<lambda>tr cmd. Some (js ''spawn failed'')\<rparr>) (Some (JNum 111))
         (js ''hello'') example_state)) = None"
  using handleMessage_dispatch
    [of "example_env\<lparr>exec_error := \<lambda>tr cmd. Some (js ''spawn failed'')\<rparr>" "Some (JNum 111)"
        example_state example_state "js ''3''"
        "example_state\<lparr>trace := [Exec (js ''wezterm cli list --format json'')]\<rparr>" "js ''hello''"]
  by (simp add: bridge_eval js_eval)

text \<open>
  Claim C5 as it is stated fails on the bridge that checks the authorization: the chat 111
  sends \<^verbatim>\<open>hello\<close>, the text is dispatched to the pane 3, and no pending marker has been
  written.
\<close>

theorem handleMessage_marks_no_pending:
  "handleMessage example_env (Some (JNum 111)) (js ''hello'') example_state
     = (None, example_state\<lparr>typingInterval := Some (Some (JNum 111)), trace :=
          [Exec (js ''wezterm cli list --format json''),
           Api (SendChatAction (Some (JNum 111))),
           Exec (js ''wezterm cli list --format json''),
           Exec (js ''wezterm cli list --format json''),
           Exec (js ''wezterm cli send-text --pane-id 3 --no-paste '' @ [34] @ js ''hello'' @ [34]),
           Exec (js ''powershell -NoProfile -Command '' @ [34]
                   @ js ''wezterm cli send-text --pane-id 3 --no-paste '' @ [34, 96, 114, 34, 34])]\<rparr>)
   \<and> pending_file (snd (handleMessage example_env (Some (JNum 111)) (js ''hello'') example_state)) = None"
  by (simp add: bridge_eval js_eval handleMessage_def)

section \<open>The inbound HTTP server\<close>

lemma String_val_Inr: "String_val te ts v = Inr c \<Longrightarrow> String_val te' ts v = Inr c"
  by (induction te ts v rule: String_val.induct) (auto split: option.splits)

lemma isAuthorized_False:
  assumes "String_val te (ToString env) chatId = Inr c"
    and "ALLOWED_CHAT_IDS env = [] \<or> c \<notin> set (ALLOWED_CHAT_IDS env)"
  shows "isAuthorized env chatId = Inr False"
  using assms(2) String_val_Inr [OF assms(1), of "typeError env 367"]
  by (auto simp: isAuthorized_def bindE_def)

text \<open>
  Claim C1, as the code has it. The chat id \<open>cid\<close> of the event prints as \<open>c\<close>, and \<open>c\<close> is not in
  the allow-list or the allow-list is empty. For a message event, whatever its text is, the
  handler answers 200 \<^verbatim>\<open>OK\<close> and all it does is to send the chat the notice of line 667 with \<open>c\<close>
  in it. For a callback-query event (of an update without a message) all it does is to answer
  the query with the fixed alert of line 690, which does not hold the chat id. In both cases
  the chat-id file, the selected pane, the mute flag, the timer and the pending marker are
  as before and no command is run.
\<close>

theorem unauthorized_event_rejected:
  assumes "JSON_parse env body = Inr (JObj u)"
    and "map_of ch (js ''id'') = Some cid"
    and "String_val te (ToString env) (Some cid) = Inr c"
    and "ALLOWED_CHAT_IDS env = [] \<or> c \<notin> set (ALLOWED_CHAT_IDS env)"
  shows "(map_of u (js ''message'') = Some (JObj m) \<and> map_of m (js ''chat'') = Some (JObj ch) \<longrightarrow>
           handleTelegramWebhook env body st =
             ((200, Text (js ''OK'')),
              st\<lparr>trace := trace st @
                   [Api (SendMessage (Some cid) (take 4000 (fixed env 667 0 @ c @ fixed env 667 1))
                           (Some (js ''HTML'')))]\<rparr>))
       \<and> (\<not> truthy (numTruthy env) (map_of u (js ''message''))
            \<and> map_of u (js ''callback_query'') = Some (JObj q)
            \<and> map_of q (js ''message'') = Some (JObj m) \<and> map_of m (js ''chat'') = Some (JObj ch) \<longrightarrow>
           handleTelegramWebhook env body st =
             ((200, Text (js ''OK'')),
              st\<lparr>trace := trace st @
                   [Api (AnswerCallbackQuery (map_of q (js ''id'')) (Some (fixed env 690 0)) True)]\<rparr>))"
proof -
  have auth: "isAuthorized env (Some cid) = Inr False"
    using assms(3,4) by (rule isAuthorized_False)
  have str: "String_val (typeError env 666) (ToString env) (Some cid) = Inr c"
    using assms(3) by (rule String_val_Inr)
  show ?thesis
    using assms(1,2) auth str
    by (simp add: handleTelegramWebhook_def webhookMessage_def webhookCallback_def bindE_def
        sendMessage_def telegramApi_def MAX_MESSAGE_LENGTH_def)
qed

text \<open>
  The theorem of C1 in the setting of the scenarios, for the message \<^verbatim>\<open>/mute\<close> of the chat 999
  and for the callback query of the chat 999.
\<close>

theorem unauthorized_event_rejected_witness:
  "String_val (js ''TypeError'') (ToString example_env) (Some (JNum 999)) = Inr (js ''999'')
   \<and> js ''999'' \<notin> set (ALLOWED_CHAT_IDS example_env)
   \<and> handleTelegramWebhook example_env message_body example_state
     = ((200, Text (js ''OK'')),
        example_state\<lparr>trace := [Api (SendMessage (Some (JNum 999)) (js ''[667.0]999[667.1]'') (Some (js ''HTML'')))]\<rparr>)
   \<and> handleTelegramWebhook example_env callback_body example_state
     = ((200, Text (js ''OK'')),
        example_state\<lparr>trace := [Api (AnswerCallbackQuery (Some (JStr (js ''q1''))) (Some [230, 339, 170, 230, 710, 230, 402]) True)]\<rparr>)"
  using unauthorized_event_rejected
     [of example_env message_body
         "[(js ''message'', JObj [(js ''chat'', JObj [(js ''id'', JNum 999)]), (js ''text'', JStr (js ''/mute''))])]"
         "[(js ''id'', JNum 999)]" "JNum 999" "js ''TypeError''" "js ''999''"
         "[(js ''chat'', JObj [(js ''id'', JNum 999)]), (js ''text'', JStr (js ''/mute''))]"
         example_state]
    unauthorized_event_rejected
     [of example_env callback_body
         "[(js ''callback_query'',
            JObj [(js ''id'', JStr (js ''q1'')), (js ''data'', JStr (js ''resume:abc'')),
                  (js ''message'', JObj [(js ''chat'', JObj [(js ''id'', JNum 999)])])])]"
         "[(js ''id'', JNum 999)]" "JNum 999" "js ''TypeError''" "js ''999''"
         "[(js ''chat'', JObj [(js ''id'', JNum 999)])]"
         example_state
         "[(js ''id'', JStr (js ''q1'')), (js ''data'', JStr (js ''resume:abc'')),
                  (js ''message'', JObj [(js ''chat'', JObj [(js ''id'', JNum 999)])])]"]
  by (simp add: bridge_eval js_eval)

text \<open>
  Claim C1 as it is stated fails for a callback query: the chat 999 is not in the allow-list,
  and the only answer is the alert of three code units, without the chat id; no notice is
  sent to the chat.
\<close>

theorem unauthorized_callback_gets_no_chat_id:
  "isAuthorized example_env (Some (JNum 999)) = Inr False
   \<and> handleTelegramWebhook example_env callback_body example_state
     = ((200, Text (js ''OK'')),
        example_state\<lparr>trace :=
          [Api (AnswerCallbackQuery (Some (JStr (js ''q1''))) (Some [230, 339, 170, 230, 710, 230, 402]) True)]\<rparr>)"
  by (simp add: bridge_eval js_eval handleTelegramWebhook_def webhookMessage_def webhookCallback_def)

subsection \<open>The completion callback\<close>

lemma getProp_not_null: "v \<noteq> JNull \<Longrightarrow> \<exists>x. getProp te (Some v) k = Inr x"
  by (cases v) simp_all

lemma handleHookRequest_muted_trace:
  assumes "isMuted st"
  shows "trace (snd (handleHookRequest env body st)) = trace st"
  using assms
  by (simp add: handleHookRequest_def stopTypingLoop_def split: sum.splits prod.splits)

text \<open>
  Claim C9, as the code has it. While the mute flag is set, a POST to \<^verbatim>\<open>/hook\<close> whose body parses
  to a value other than \<^verbatim>\<open>null\<close> is answered with 200 and \<^verbatim>\<open>{ok: true, muted: true}\<close>, and the
  handler has only stopped the typing timer. Whatever the body is, the handler makes no API
  call and runs no command while the flag is set.
\<close>

theorem muted_hook_not_delivered:
  assumes "isMuted st"
  shows "(JSON_parse env body = Inr data \<and> data \<noteq> JNull \<longrightarrow>
           handleRequest env (js ''POST'') (js ''/hook'') body st =
             ((200, Json [(js ''ok'', JBool True), (js ''muted'', JBool True)]), st\<lparr>typingInterval := None\<rparr>))
       \<and> trace (snd (handleRequest env (js ''POST'') (js ''/hook'') body st)) = trace st"
proof (intro conjI impI)
  assume a: "JSON_parse env body = Inr data \<and> data \<noteq> JNull"
  then obtain x y z where
    "getProp (typeError env 590) (Some data) (js ''message'') = Inr x"
    "getProp (typeError env 590) (Some data) (js ''cwd'') = Inr y"
    "getProp (typeError env 590) (Some data) (js ''sessionId'') = Inr z"
    using getProp_not_null [of data] by blast
  then show "handleRequest env (js ''POST'') (js ''/hook'') body st =
             ((200, Json [(js ''ok'', JBool True), (js ''muted'', JBool True)]), st\<lparr>typingInterval := None\<rparr>)"
    using a assms
    by (simp add: handleRequest_def handleHookRequest_def bindE_def stopTypingLoop_def)
next
  show "trace (snd (handleRequest env (js ''POST'') (js ''/hook'') body st)) = trace st"
    using assms by (simp add: handleRequest_def handleHookRequest_muted_trace)
qed

text \<open>
  The theorem of C9 for the body of scenario E, the object with the message \<^verbatim>\<open>**done**\<close>, while
  the flag is set.
\<close>

theorem muted_hook_not_delivered_witness:
  "isMuted (example_state\<lparr>isMuted := True\<rparr>)
   \<and> JSON_parse example_env hook_body
     = Inr (JObj [(js ''message'', JStr (js ''**done**'')), (js ''cwd'', JStr (js ''/tmp'')),
                  (js ''sessionId'', JStr (js ''abc''))])
   \<and> handleRequest example_env (js ''POST'') (js ''/hook'') hook_body (example_state\<lparr>isMuted := True\<rparr>)
     = ((200, Json [(js ''ok'', JBool True), (js ''muted'', JBool True)]), example_state\<lparr>isMuted := True\<rparr>)"
  using muted_hook_not_delivered
    [of "example_state\<lparr>isMuted := True\<rparr>" example_env hook_body
        "JObj [(js ''message'', JStr (js ''**done**'')), (js ''cwd'', JStr (js ''/tmp'')),
               (js ''sessionId'', JStr (js ''abc''))]"]
  by (simp add: bridge_eval js_def)

text \<open>
  Claim C9 as it is stated fails for the body \<^verbatim>\<open>null\<close>, which parses: taking the fields of
  \<^verbatim>\<open>null\<close> throws, and the answer is 500 with the error, also while the flag is set.
\<close>

theorem muted_hook_null_body:
  "JSON_parse example_env (js ''null'') = Inr JNull
   \<and> handleRequest example_env (js ''POST'') (js ''/hook'') (js ''null'') (example_state\<lparr>isMuted := True\<rparr>)
     = ((500, Json [(js ''ok'', JBool False), (js ''error'', JStr (js ''TypeError''))]),
        example_state\<lparr>isMuted := True\<rparr>)"
  by (simp add: handleRequest_def handleHookRequest_def hookError_def bridge_eval js_def)

text \<open>Scenario D: the same body while the flag is not set is delivered, with its header.\<close>

lemma hook_delivers_when_not_muted:
  "handleRequest example_env (js ''POST'') (js ''/hook'') hook_body example_state
     = ((200, Json [(js ''ok'', JBool True)]),
        example_state\<lparr>trace := [Api (SendMessage (Some (JStr (js ''111'')))
             (js ''[622.0]/tmp[622.1]abc[622.2]<b>done</b>'') (Some (js ''HTML'')))]\<rparr>)"
  by (simp add: handleRequest_def handleHookRequest_def bridge_eval js_eval)

section \<open>The completion extractor: what it returns\<close>

lemma scanLines_map_filter:
  "n \<le> length ls \<Longrightarrow>
     scanLines env ls n =
       (case List.map_filter (lineText env) (rev (take n ls)) of [] \<Rightarrow> None | t # ts \<Rightarrow> Some t)"
proof (induction n)
  case 0
  then show ?case by (simp add: List.map_filter_simps)
next
  case (Suc n)
  then have n: "n < length ls" by simp
  show ?case
  proof (cases "lineText env (ls ! n)")
    case None
    with Suc n show ?thesis
      by (simp add: take_Suc_conv_app_nth List.map_filter_simps)
  next
    case (Some t)
    with n show ?thesis
      by (simp add: take_Suc_conv_app_nth List.map_filter_simps)
  qed
qed

lemma blockText_textPart:
  "block \<noteq> JNull \<Longrightarrow>
     blockText env block = Inr (case textPart env block of [] \<Rightarrow> None | t # ts \<Rightarrow> Some t)"
  by (cases block) (simp_all add: blockText_def textPart_def bindE_def split: option.splits)

lemma blockText_null: "blockText env JNull = Inl (Error (typeError env 855))"
  by (simp add: blockText_def bindE_def)

lemma collectText_textParts:
  "JNull \<notin> set blocks \<Longrightarrow> collectText env blocks = Inr (concat (map (textPart env) blocks))"
proof (induction blocks)
  case Nil
  show ?case by simp
next
  case (Cons block blocks)
  then have "block \<noteq> JNull" and "JNull \<notin> set blocks" by auto
  with Cons.IH show ?case
    by (simp add: blockText_textPart bindE_def textPart_def split: json.splits option.splits)
qed

lemma collectText_null:
  "JNull \<in> set blocks \<Longrightarrow> \<exists>e. collectText env blocks = Inl e"
proof (induction blocks)
  case Nil
  then show ?case by simp
next
  case (Cons block blocks)
  show ?case
  proof (cases "block = JNull")
    case True
    then show ?thesis by (simp add: blockText_null bindE_def)
  next
    case False
    with Cons obtain e where "collectText env blocks = Inl e" by auto
    with False show ?thesis by (simp add: blockText_textPart bindE_def)
  qed
qed

lemma stringsOf_Nil_iff: "stringsOf env ps = Inr [] \<longleftrightarrow> ps = []"
  by (cases ps) (auto simp add: bindE_def split: sum.splits)

lemma lineText_no_parse: "JSON_parse env l = Inl e \<Longrightarrow> lineText env l = None"
  by (simp add: lineText_def)

lemma lineText_not_object:
  "JSON_parse env l = Inr v \<Longrightarrow> \<forall>r. v \<noteq> JObj r \<Longrightarrow> lineText env l = None"
  by (cases v) (simp_all add: lineText_def entryText_def bindE_def)

lemma lineText_other_record:
  "JSON_parse env l = Inr (JObj r) \<Longrightarrow>
   map_of r (js ''type'') \<noteq> Some (JStr (js ''assistant'')) \<or> \<not> truthy (numTruthy env) (map_of r (js ''message''))
   \<Longrightarrow> lineText env l = None"
  by (auto simp add: lineText_def entryText_def bindE_def)

lemma lineText_message_not_object:
  assumes "JSON_parse env l = Inr (JObj r)"
    and "map_of r (js ''type'') = Some (JStr (js ''assistant''))"
    and "map_of r (js ''message'') = Some msg"
    and "\<forall>m. msg \<noteq> JObj m"
  shows "lineText env l = None"
  using assms by (cases msg) (simp_all add: lineText_def entryText_def bindE_def)

lemma lineText_content:
  assumes "JSON_parse env l = Inr (JObj r)"
    and "map_of r (js ''type'') = Some (JStr (js ''assistant''))"
    and "map_of r (js ''message'') = Some (JObj m)"
  shows "lineText env l =
           (case (case map_of m (js ''content'') of
                    Some (JArr blocks) \<Rightarrow> collectText env blocks
                  | Some (JStr s) \<Rightarrow> Inr [JStr s]
                  | _ \<Rightarrow> Inr []) of
              Inl e \<Rightarrow> None
            | Inr textParts \<Rightarrow>
                (case stringsOf env textParts of
                   Inl e \<Rightarrow> None
                 | Inr ss \<Rightarrow> if ss = [] then None else Some (join [10] ss)))"
proof -
  have "stringsOf env ps = Inr [] \<longleftrightarrow> ps = []" for ps
    by (rule stringsOf_Nil_iff)
  then show ?thesis
    using assms
    by (auto simp add: lineText_def entryText_def bindE_def split: sum.splits option.splits json.splits)
qed

lemma stringsOf_strings: "stringsOf env (map JStr ss) = Inr ss"
  by (induction ss) (simp_all add: bindE_def)

text \<open>
  Claim C3, as the code has it. A missing file gives no message. Otherwise the lines of the
  trimmed transcript are tried from the last one backwards and the result is the first text
  that a line yields, if any. What a line yields is settled by what it parses to:

    \<^item> a line that is not JSON yields nothing, and neither does a value that is not an object;

    \<^item> a record yields nothing when its type is not \<^verbatim>\<open>assistant\<close>, when its message is
      missing or falsy, when its message is not an object, and when the content of its message
      is neither a string nor a sequence;

    \<^item> an assistant record with a string content yields that string;

    \<^item> an assistant record with a sequence of blocks yields nothing when one of the blocks is
      \<^verbatim>\<open>null\<close>; otherwise its text parts are those of its blocks, whatever the blocks are, and
      it yields them, printed and joined by line feeds, and nothing when there is no text
      part (as for a record of \<^verbatim>\<open>tool_use\<close> blocks only) or when a part does not print. When
      the parts are the strings \<open>ts\<close>, it yields \<open>ts\<close> joined by line feeds.

  A record that yields nothing is passed over and the scan goes on to the lines before it.
\<close>

theorem extractLastAssistantMessage_first_text_from_end:
  "extractLastAssistantMessage env None = None
   \<and> extractLastAssistantMessage env (Some content) =
       (case List.map_filter (lineText env) (rev (split_char 10 (trim content))) of
          [] \<Rightarrow> None
        | t # ts \<Rightarrow> Some t)
   \<and> (JSON_parse env l = Inl e \<longrightarrow> lineText env l = None)
   \<and> (JSON_parse env l = Inr v \<and> (\<forall>r. v \<noteq> JObj r) \<longrightarrow> lineText env l = None)
   \<and> (JSON_parse env l = Inr (JObj r)
        \<and> (map_of r (js ''type'') \<noteq> Some (JStr (js ''assistant''))
             \<or> \<not> truthy (numTruthy env) (map_of r (js ''message'')))
        \<longrightarrow> lineText env l = None)
   \<and> (JSON_parse env l = Inr (JObj r) \<and> map_of r (js ''type'') = Some (JStr (js ''assistant''))
        \<and> map_of r (js ''message'') = Some msg \<and> (\<forall>m. msg \<noteq> JObj m)
        \<longrightarrow> lineText env l = None)
   \<and> (JSON_parse env l = Inr (JObj r) \<and> map_of r (js ''type'') = Some (JStr (js ''assistant''))
        \<and> map_of r (js ''message'') = Some (JObj m)
        \<longrightarrow> (map_of m (js ''content'') = Some (JStr s) \<longrightarrow> lineText env l = Some s)
          \<and> ((\<forall>s. map_of m (js ''content'') \<noteq> Some (JStr s))
               \<and> (\<forall>bs. map_of m (js ''content'') \<noteq> Some (JArr bs))
              \<longrightarrow> lineText env l = None)
          \<and> (map_of m (js ''content'') = Some (JArr blocks) \<and> JNull \<in> set blocks
              \<longrightarrow> lineText env l = None)
          \<and> (map_of m (js ''content'') = Some (JArr blocks) \<and> JNull \<notin> set blocks
              \<longrightarrow> lineText env l =
                    (case stringsOf env (concat (map (textPart env) blocks)) of
                       Inl x \<Rightarrow> None
                     | Inr ss \<Rightarrow> if ss = [] then None else Some (join [10] ss)))
          \<and> (map_of m (js ''content'') = Some (JArr blocks) \<and> JNull \<notin> set blocks
               \<and> concat (map (textPart env) blocks) = map JStr ts
              \<longrightarrow> lineText env l = (if ts = [] then None else Some (join [10] ts))))"
proof (intro conjI impI)
  show "extractLastAssistantMessage env None = None"
    by (simp add: extractLastAssistantMessage_def)
  show "extractLastAssistantMessage env (Some content) =
       (case List.map_filter (lineText env) (rev (split_char 10 (trim content))) of
          [] \<Rightarrow> None
        | t # ts \<Rightarrow> Some t)"
    by (simp add: extractLastAssistantMessage_def scanLines_map_filter)
  show "lineText env l = None" if "JSON_parse env l = Inl e"
    using that by (rule lineText_no_parse)
  show "lineText env l = None" if "JSON_parse env l = Inr v \<and> (\<forall>r. v \<noteq> JObj r)"
    using that lineText_not_object [of env l v] by simp
  show "lineText env l = None"
    if "JSON_parse env l = Inr (JObj r)
        \<and> (map_of r (js ''type'') \<noteq> Some (JStr (js ''assistant''))
             \<or> \<not> truthy (numTruthy env) (map_of r (js ''message'')))"
    using that lineText_other_record [of env l r] by blast
  show "lineText env l = None"
    if "JSON_parse env l = Inr (JObj r) \<and> map_of r (js ''type'') = Some (JStr (js ''assistant''))
        \<and> map_of r (js ''message'') = Some msg \<and> (\<forall>m. msg \<noteq> JObj m)"
    using that lineText_message_not_object [of env l r msg] by blast
next
  assume a: "JSON_parse env l = Inr (JObj r) \<and> map_of r (js ''type'') = Some (JStr (js ''assistant''))
        \<and> map_of r (js ''message'') = Some (JObj m)"
  then have c: "lineText env l =
           (case (case map_of m (js ''content'') of
                    Some (JArr blocks) \<Rightarrow> collectText env blocks
                  | Some (JStr s) \<Rightarrow> Inr [JStr s]
                  | _ \<Rightarrow> Inr []) of
              Inl e \<Rightarrow> None
            | Inr textParts \<Rightarrow>
                (case stringsOf env textParts of
                   Inl e \<Rightarrow> None
                 | Inr ss \<Rightarrow> if ss = [] then None else Some (join [10] ss)))"
    using lineText_content [of env l r m] by blast
  show "lineText env l = Some s" if "map_of m (js ''content'') = Some (JStr s)"
    using that c by (simp add: bindE_def)
  show "lineText env l = None"
    if "(\<forall>s. map_of m (js ''content'') \<noteq> Some (JStr s))
         \<and> (\<forall>bs. map_of m (js ''content'') \<noteq> Some (JArr bs))"
    using that c by (simp split: option.splits json.splits)
  show "lineText env l = None"
    if "map_of m (js ''content'') = Some (JArr blocks) \<and> JNull \<in> set blocks"
    using that c collectText_null [of blocks env] by auto
  show "lineText env l =
          (case stringsOf env (concat (map (textPart env) blocks)) of
             Inl x \<Rightarrow> None
           | Inr ss \<Rightarrow> if ss = [] then None else Some (join [10] ss))"
    if "map_of m (js ''content'') = Some (JArr blocks) \<and> JNull \<notin> set blocks"
    using that c by (simp add: collectText_textParts)
  show "lineText env l = (if ts = [] then None else Some (join [10] ts))"
    if "map_of m (js ''content'') = Some (JArr blocks) \<and> JNull \<notin> set blocks
         \<and> concat (map (textPart env) blocks) = map JStr ts"
    using that c by (simp add: collectText_textParts stringsOf_strings)
qed

lemmas extract_eval =
  extractLastAssistantMessage_def lineText_def entryText_def blockText_def textPart_def
  declaredAssistant_def claimed_blockTexts_def claimed_text_def claimed_extract_def

text \<open>
  The theorem of C3 on the lines of the instance, each under the case that holds for it, and
  on the transcript: its last line is an assistant record without text and the line before it
  is not JSON, so the result is the text of the second line, \<^verbatim>\<open>A\<close> and \<^verbatim>\<open>B\<close> on two lines.
\<close>

theorem extractLastAssistantMessage_first_text_from_end_witness:
  "lineText example_env (js ''not json'') = None
   \<and> lineText example_env (js ''null'') = None
   \<and> lineText example_env user_line = None
   \<and> lineText example_env bare_line = None
   \<and> lineText example_env string_message_line = None
   \<and> lineText example_env empty_message_line = None
   \<and> lineText example_env string_line = Some (js ''done'')
   \<and> lineText example_env null_block_line = None
   \<and> lineText example_env tool_line = None
   \<and> lineText example_env unprintable_line = None
   \<and> lineText example_env mixed_line = Some (js ''5'' @ [10] @ js ''B'')
   \<and> lineText example_env text_line = Some (js ''A'' @ [10] @ js ''B'')
   \<and> extractLastAssistantMessage example_env (Some example_transcript) = Some (js ''A'' @ [10] @ js ''B'')"
proof -
  note c3 = extractLastAssistantMessage_first_text_from_end [where env = example_env]
  have 1: "lineText example_env (js ''not json'') = None"
    using c3 [where l = "js ''not json''" and e = "js ''SyntaxError''"]
    by (simp add: bridge_eval js_eval)
  have 2: "lineText example_env (js ''null'') = None"
    using c3 [where l = "js ''null''" and v = JNull]
    by (simp add: bridge_eval js_eval)
  have 3: "lineText example_env user_line = None"
    using c3 [where l = user_line
          and r = "[(js ''type'', JStr (js ''user'')), (js ''message'', JObj [(js ''content'', JStr (js ''hi''))])]"]
    by (simp add: bridge_eval js_eval)
  have 4: "lineText example_env bare_line = None"
    using c3 [where l = bare_line and r = "[(js ''type'', JStr (js ''assistant''))]"]
    by (simp add: bridge_eval js_eval)
  have 5: "lineText example_env string_message_line = None"
    using c3 [where l = string_message_line
          and r = "[(js ''type'', JStr (js ''assistant'')), (js ''message'', JStr (js ''hi''))]"
          and msg = "JStr (js ''hi'')"]
    by (simp add: bridge_eval js_eval)
  have 6: "lineText example_env empty_message_line = None"
    using c3 [where l = empty_message_line
          and r = "[(js ''type'', JStr (js ''assistant'')), (js ''message'', JObj [])]" and m = "[]"]
    by (simp add: bridge_eval js_eval)
  have 7: "lineText example_env string_line = Some (js ''done'')"
    using c3 [where l = string_line
          and r = "[(js ''type'', JStr (js ''assistant'')), (js ''message'', JObj [(js ''content'', JStr (js ''done''))])]"
          and m = "[(js ''content'', JStr (js ''done''))]" and s = "js ''done''"]
    by (simp add: bridge_eval js_eval)
  have 8: "lineText example_env null_block_line = None"
    using c3 [where l = null_block_line
          and r = "[(js ''type'', JStr (js ''assistant'')),
                    (js ''message'', JObj [(js ''content'', JArr [JNull, text_block (JStr (js ''A''))])])]"
          and m = "[(js ''content'', JArr [JNull, text_block (JStr (js ''A''))])]"
          and blocks = "[JNull, text_block (JStr (js ''A''))]"]
    by (simp add: bridge_eval js_eval)
  have 9: "lineText example_env tool_line = None"
    using c3 [where l = tool_line
          and r = "[(js ''type'', JStr (js ''assistant'')), (js ''message'', JObj [(js ''content'', JArr [tool_block])])]"
          and m = "[(js ''content'', JArr [tool_block])]" and blocks = "[tool_block]" and ts = "[]"]
    by (simp add: textPart_def bridge_eval js_eval)
  have 10: "lineText example_env unprintable_line = None"
    using c3 [where l = unprintable_line
          and r = "[(js ''type'', JStr (js ''assistant'')),
                    (js ''message'', JObj [(js ''content'', JArr [text_block (JObj [(js ''toString'', JNum 1)])])])]"
          and m = "[(js ''content'', JArr [text_block (JObj [(js ''toString'', JNum 1)])])]"
          and blocks = "[text_block (JObj [(js ''toString'', JNum 1)])]"]
    by (simp add: textPart_def bridge_eval js_eval)
  have 11: "lineText example_env mixed_line = Some (js ''5'' @ [10] @ js ''B'')"
    using c3 [where l = mixed_line
          and r = "[(js ''type'', JStr (js ''assistant'')),
                    (js ''message'',
                     JObj [(js ''content'',
                            JArr [text_block (JNum 5), text_block (JStr []), tool_block, JStr (js ''x''),
                                  text_block (JStr (js ''B''))])])]"
          and m = "[(js ''content'',
                     JArr [text_block (JNum 5), text_block (JStr []), tool_block, JStr (js ''x''),
                           text_block (JStr (js ''B''))])]"
          and blocks = "[text_block (JNum 5), text_block (JStr []), tool_block, JStr (js ''x''),
                         text_block (JStr (js ''B''))]"]
    by (simp add: textPart_def bridge_eval js_eval)
  have 12: "lineText example_env text_line = Some (js ''A'' @ [10] @ js ''B'')"
    using c3 [where l = text_line
          and r = "[(js ''type'', JStr (js ''assistant'')),
                    (js ''message'',
                     JObj [(js ''content'', JArr [text_block (JStr (js ''A'')), text_block (JStr (js ''B''))])])]"
          and m = "[(js ''content'', JArr [text_block (JStr (js ''A'')), text_block (JStr (js ''B''))])]"
          and blocks = "[text_block (JStr (js ''A'')), text_block (JStr (js ''B''))]"
          and ts = "[js ''A'', js ''B'']"]
    by (simp add: textPart_def bridge_eval js_eval)
  have 13: "extractLastAssistantMessage example_env (Some example_transcript) = Some (js ''A'' @ [10] @ js ''B'')"
    using c3 [where content = example_transcript] 1 3 9 12
    by (simp add: example_transcript_def trim_def isWhiteSpace_def isLineTerminator_def js_def jstr_def
          user_line_def text_line_def tool_line_def assistant_line_def text_block_text_def
          tool_block_text_def List.map_filter_simps)
  from 1 2 3 4 5 6 7 8 9 10 11 12 13 show ?thesis by simp
qed

text \<open>
  Claim C3 as it is stated fails on this transcript: the record nearest the end whose role is
  \<^verbatim>\<open>assistant\<close> is the last line, which has no text block, so the extraction as claimed
  gives its empty text; the code gives the text of the earlier assistant record.
\<close>

theorem extract_skips_textless_assistant_record:
  "extractLastAssistantMessage example_env (Some example_transcript) = Some (js ''A'' @ [10] @ js ''B'')
   \<and> declaredAssistant example_env tool_line
   \<and> claimed_extract example_env (Some example_transcript) = Some []"
  by (simp add: extract_eval bridge_eval js_eval)

end
